theory Spec2Isabelle
  imports Main "HOL-Library.Word"
begin

section \<open>Charge statistics reporter (pixelstats/ChargeStatsReporter.cpp)\<close>

text \<open>
  The reporter drains a primary charge log and several auxiliary logs, assembles one
  ChargeStats atom per session and one VoltageTierStats atom per tier line, and hands
  them to the stats service. The embedding follows the C++ source block by block.
  Fixed-width integers are words: \<open>int32_t\<close> is \<open>32 word\<close> and \<open>int64_t\<close> is
  \<open>64 word\<close>, read as two's complement with \<open>sint\<close>.
\<close>

type_synonym int32 = "32 word"
type_synonym int64 = "64 word"

subsection \<open>The C library's \<open>sscanf\<close>, for the directives the source uses\<close>

text \<open>
  \<open>sscanf\<close> belongs to the C library, not to this repository. It is modelled after
  ISO C (7.21.6.2) for the directives that occur in the source's formats: white space,
  ordinary characters, \<open>%d\<close>, \<open>%x\<close> and \<open>%f\<close>. Where the standard leaves room the
  model follows Android's libc: a \<open>0x\<close> that no hexadecimal digit follows converts as
  \<open>0\<close> and leaves the \<open>x\<close> unread; a numeric field ends after 512 characters at the
  latest; its digits are converted as by \<open>strtoimax\<close> (for \<open>%d\<close>) or \<open>strtoumax\<close>
  (for \<open>%x\<close>), which saturate at the bounds of the 64-bit type; and the result is stored
  in the 32-bit object by keeping its low 32 bits. The conversion of a floating-point
  lexeme (\<open>strtof\<close>) is a parameter \<open>sf\<close> of the scanner: it gets the input behind the
  skipped white space and returns the value with the unread rest, or \<open>None\<close> when no
  number starts there.
\<close>

definition isspace :: "char \<Rightarrow> bool" where
  "isspace c \<longleftrightarrow> c = CHR 0x20 \<or> c = CHR 0x09 \<or> c = CHR 0x0A \<or> c = CHR 0x0B
     \<or> c = CHR 0x0C \<or> c = CHR 0x0D"

definition isdigit :: "char \<Rightarrow> bool" where
  "isdigit c \<longleftrightarrow> 48 \<le> (of_char c :: nat) \<and> (of_char c :: nat) \<le> 57"

definition isxdigit :: "char \<Rightarrow> bool" where
  "isxdigit c \<longleftrightarrow> isdigit c
     \<or> (65 \<le> (of_char c :: nat) \<and> (of_char c :: nat) \<le> 70)
     \<or> (97 \<le> (of_char c :: nat) \<and> (of_char c :: nat) \<le> 102)"

definition xdigit_val :: "char \<Rightarrow> nat" where
  "xdigit_val c =
     (if isdigit c then of_char c - 48
      else if 97 \<le> (of_char c :: nat) then of_char c - 87
      else of_char c - 55)"

definition digits_val :: "nat \<Rightarrow> string \<Rightarrow> nat" where
  "digits_val base ds = foldl (\<lambda>a c. a * base + xdigit_val c) 0 ds"

definition take_sign :: "string \<Rightarrow> bool \<times> string" where
  "take_sign s =
     (case s of
        [] \<Rightarrow> (False, [])
      | c # cs \<Rightarrow>
          if c = CHR ''-'' then (True, cs)
          else if c = CHR ''+'' then (False, cs)
          else (False, s))"

text \<open>
  \<open>strtoimax\<close> and \<open>strtoumax\<close> on a sign and the value of the digits: the value of
  the \<open>intmax_t\<close> or \<open>uintmax_t\<close> returned. Out of range, \<open>strtoimax\<close> returns the
  nearer bound and \<open>strtoumax\<close> the maximum; in range, \<open>strtoumax\<close> negates a value
  behind a minus sign in the unsigned type.
\<close>

definition INTMAX_MAX :: int where
  "INTMAX_MAX = 9223372036854775807"

definition UINTMAX_MAX :: int where
  "UINTMAX_MAX = 18446744073709551615"

definition strtoimax :: "bool \<Rightarrow> nat \<Rightarrow> int" where
  "strtoimax neg n =
     (if neg then (if INTMAX_MAX + 1 < int n then - INTMAX_MAX - 1 else - int n)
      else (if INTMAX_MAX < int n then INTMAX_MAX else int n))"

definition strtoumax :: "bool \<Rightarrow> nat \<Rightarrow> int" where
  "strtoumax neg n =
     (if UINTMAX_MAX < int n then UINTMAX_MAX
      else if neg then (- int n) mod (UINTMAX_MAX + 1)
      else int n)"

text \<open>The store \<open>*va_arg(ap, int*) = res\<close>: the low 32 bits of the result.\<close>

definition to_int32 :: "int \<Rightarrow> int32" where
  "to_int32 res = word_of_int res"

text \<open>The longest numeric field the scanner collects.\<close>

definition field_width :: nat where
  "field_width = 512"

text \<open>
  \<open>%d\<close> on the characters of a field: an optional sign and at least one digit. The
  value comes with the characters of the field that the conversion leaves unread.
\<close>

definition scan_dec_field :: "string \<Rightarrow> (int32 \<times> string) option" where
  "scan_dec_field s =
     (let (neg, r) = take_sign s in
      if takeWhile isdigit r = [] then None
      else Some (to_int32 (strtoimax neg (digits_val 10 (takeWhile isdigit r))),
                 dropWhile isdigit r))"

text \<open>
  \<open>%d\<close> behind the skipped white space: the field lies within the first
  \<open>field_width\<close> characters of the input, and what is behind them stays unread.
\<close>

definition scan_dec :: "string \<Rightarrow> (int32 \<times> string) option" where
  "scan_dec s =
     (case scan_dec_field (take field_width s) of
        None \<Rightarrow> None
      | Some (v, r) \<Rightarrow> Some (v, r @ drop field_width s))"

text \<open>
  \<open>%x\<close> on the characters of a field: an optional sign, an optional \<open>0x\<close> or \<open>0X\<close>,
  hexadecimal digits.
\<close>

definition scan_hex_digits :: "bool \<Rightarrow> string \<Rightarrow> (int32 \<times> string) option" where
  "scan_hex_digits neg r =
     (if takeWhile isxdigit r = [] then None
      else Some (to_int32 (strtoumax neg (digits_val 16 (takeWhile isxdigit r))),
                 dropWhile isxdigit r))"

definition scan_hex_field :: "string \<Rightarrow> (int32 \<times> string) option" where
  "scan_hex_field s =
     (let (neg, r) = take_sign s in
      case r of
        c0 # cx # r' \<Rightarrow>
          if c0 = CHR ''0'' \<and> (cx = CHR ''x'' \<or> cx = CHR ''X'') then
            (if takeWhile isxdigit r' = [] then Some (0, cx # r')
             else scan_hex_digits neg r')
          else scan_hex_digits neg r
      | _ \<Rightarrow> scan_hex_digits neg r)"

definition scan_hex :: "string \<Rightarrow> (int32 \<times> string) option" where
  "scan_hex s =
     (case scan_hex_field (take field_width s) of
        None \<Rightarrow> None
      | Some (v, r) \<Rightarrow> Some (v, r @ drop field_width s))"

datatype directive = Space | Lit char | ConvD | ConvX | ConvF

text \<open>
  The format string as its directives. Only the conversions of the source's formats
  are read (\<open>%d\<close>, \<open>%x\<close>, \<open>%f\<close>, none with a width or a flag); the format ends at any
  other conversion.
\<close>

fun parse_format :: "string \<Rightarrow> directive list" where
  "parse_format [] = []"
| "parse_format (c # cs) =
     (if isspace c then Space # parse_format cs
      else if c = CHR ''%'' then
        (case cs of
           [] \<Rightarrow> []
         | d # ds \<Rightarrow>
             if d = CHR ''d'' then ConvD # parse_format ds
             else if d = CHR ''x'' then ConvX # parse_format ds
             else if d = CHR ''f'' then ConvF # parse_format ds
             else [])
      else Lit c # parse_format cs)"

datatype 'f scanned = ScInt int32 | ScFloat 'f

text \<open>
  One run of the scanner: the values converted, in order, and whether the run ended on
  an input failure (the end of the string) rather than on a mismatch or on the end of
  the format.
\<close>

fun scan_run ::
  "(string \<Rightarrow> ('f \<times> string) option) \<Rightarrow> directive list \<Rightarrow> string \<Rightarrow> bool \<times> 'f scanned list"
where
  "scan_run sf [] inp = (False, [])"
| "scan_run sf (Space # ds) inp = scan_run sf ds (dropWhile isspace inp)"
| "scan_run sf (Lit c # ds) inp =
     (case inp of
        [] \<Rightarrow> (True, [])
      | x # xs \<Rightarrow> if x = c then scan_run sf ds xs else (False, []))"
| "scan_run sf (ConvD # ds) inp =
     (case dropWhile isspace inp of
        [] \<Rightarrow> (True, [])
      | x # xs \<Rightarrow>
          (case scan_dec (x # xs) of
             None \<Rightarrow> (False, [])
           | Some (v, rest) \<Rightarrow>
               (let (e, vs) = scan_run sf ds rest in (e, ScInt v # vs))))"
| "scan_run sf (ConvX # ds) inp =
     (case dropWhile isspace inp of
        [] \<Rightarrow> (True, [])
      | x # xs \<Rightarrow>
          (case scan_hex (x # xs) of
             None \<Rightarrow> (False, [])
           | Some (v, rest) \<Rightarrow>
               (let (e, vs) = scan_run sf ds rest in (e, ScInt v # vs))))"
| "scan_run sf (ConvF # ds) inp =
     (case dropWhile isspace inp of
        [] \<Rightarrow> (True, [])
      | x # xs \<Rightarrow>
          (case sf (x # xs) of
             None \<Rightarrow> (False, [])
           | Some (v, rest) \<Rightarrow>
               (let (e, vs) = scan_run sf ds rest in (e, ScFloat v # vs))))"

text \<open>\<open>c_str()\<close>: the C string ends at the first NUL of the \<open>std::string\<close>.\<close>

definition c_str :: "string \<Rightarrow> string" where
  "c_str s = takeWhile (\<lambda>c. c \<noteq> CHR 0x00) s"

text \<open>
  \<open>sscanf(str, fmt, ...)\<close>: the return value (the number of values assigned, or
  \<open>EOF = -1\<close> on an input failure before the first conversion) and the values
  assigned, which the caller stores through its pointer arguments in this order.
\<close>

definition sscanf ::
  "(string \<Rightarrow> ('f \<times> string) option) \<Rightarrow> string \<Rightarrow> string \<Rightarrow> int \<times> 'f scanned list"
where
  "sscanf sf str fmt =
     (let (eof, vs) = scan_run sf (parse_format fmt) str in
      (if eof \<and> vs = [] then - 1 else int (length vs), vs))"


text \<open>
  The formats of ChargeStatsReporter.cpp have no \<open>%f\<close> but the tier format; for the
  others the scan yields integers only, and \<open>strtof\<close> is never consulted.
\<close>

fun ints_of :: "'f scanned list \<Rightarrow> int32 list" where
  "ints_of [] = []"
| "ints_of (ScInt v # vs) = v # ints_of vs"
| "ints_of (ScFloat _ # vs) = ints_of vs"

definition sscanf_ints :: "string \<Rightarrow> string \<Rightarrow> int \<times> int32 list" where
  "sscanf_ints str fmt =
     (let (n, vs) = sscanf (\<lambda>_. None :: (unit \<times> string) option) str fmt in (n, ints_of vs))"

text \<open>
  The stores of one \<open>sscanf\<close> call through its pointer arguments \<open>&a[t]\<close>: the values
  converted go to the targets in order, also when the call stops early.
\<close>

fun store :: "int32 list \<Rightarrow> nat list \<Rightarrow> int32 list \<Rightarrow> int32 list" where
  "store a [] vs = a"
| "store a (t # ts) [] = a"
| "store a (t # ts) (v # vs) = store (a[t := v]) ts vs"

subsection \<open>Streams of lines\<close>

text \<open>
  \<open>std::getline\<close> on an \<open>istringstream\<close>: the characters up to the next newline, which
  is consumed and not stored; it fails when nothing is left. The stream is the text
  not yet read.
\<close>

definition getline :: "string \<Rightarrow> (string \<times> string) option" where
  "getline ss =
     (if ss = [] then None
      else Some (takeWhile (\<lambda>c. c \<noteq> CHR 0x0A) ss, drop 1 (dropWhile (\<lambda>c. c \<noteq> CHR 0x0A) ss)))"

lemma getline_shorter: "getline ss = Some (l, ss') \<Longrightarrow> length ss' < length ss"
proof -
  assume a: "getline ss = Some (l, ss')"
  have ne: "ss \<noteq> []" using a by (auto simp: getline_def split: if_splits)
  have eq: "ss' = drop 1 (dropWhile (\<lambda>c. c \<noteq> CHR 0x0A) ss)"
    using a by (auto simp: getline_def split: if_splits)
  show ?thesis
  proof (cases "dropWhile (\<lambda>c. c \<noteq> CHR 0x0A) ss")
    case Nil
    with eq ne show ?thesis by simp
  next
    case (Cons x xs)
    have "length (dropWhile (\<lambda>c. c \<noteq> CHR 0x0A) ss) \<le> length ss"
      by (rule length_dropWhile_le)
    with Cons eq show ?thesis by simp
  qed
qed

text \<open>The lines a \<open>while (std::getline(ss, line))\<close> loop sees, in order.\<close>

function getlines :: "string \<Rightarrow> string list" where
  "getlines ss = (case getline ss of None \<Rightarrow> [] | Some (l, ss') \<Rightarrow> l # getlines ss')"
  by pat_completeness auto
termination
  by (relation "measure length") (auto dest: getline_shorter)

declare getlines.simps [simp del]

subsection \<open>Files\<close>

text \<open>
  \<open>ReadFileToString\<close> and \<open>WriteStringToFile\<close> of android-base, over a file system
  that says for each path what a read returns (\<open>None\<close>: the read fails) and whether a
  write succeeds. A write that fails is one whose file could not be opened for
  writing: the file keeps its contents.
\<close>

record fs =
  files :: "string \<Rightarrow> string option"
  writable :: "string \<Rightarrow> bool"

definition ReadFileToString :: "string \<Rightarrow> fs \<Rightarrow> string option" where
  "ReadFileToString path w = files w path"

definition WriteStringToFile :: "string \<Rightarrow> string \<Rightarrow> fs \<Rightarrow> bool \<times> fs" where
  "WriteStringToFile content path w =
     (if writable w path then (True, w\<lparr>files := (files w)(path \<mapsto> content)\<rparr>)
      else (False, w))"

subsection \<open>Atoms\<close>

datatype ChargeStatsField =
    kAdapterTypeFieldNumber
  | kAdapterVoltageFieldNumber
  | kAdapterAmperageFieldNumber
  | kSsocInFieldNumber
  | kVoltageInFieldNumber
  | kSsocOutFieldNumber
  | kVoltageOutFieldNumber
  | kChargeCapacityFieldNumber
  | kCsiAggregateStatusFieldNumber
  | kCsiAggregateTypeFieldNumber
  | kAdapterCapabilities0FieldNumber
  | kAdapterCapabilities1FieldNumber
  | kAdapterCapabilities2FieldNumber
  | kAdapterCapabilities3FieldNumber
  | kAdapterCapabilities4FieldNumber
  | kReceiverState0FieldNumber
  | kReceiverState1FieldNumber

datatype VoltageTierStatsField =
    kVoltageTierFieldNumber
  | kSocInFieldNumber
  | kCcInFieldNumber
  | kTempInFieldNumber
  | kTimeFastSecsFieldNumber
  | kTimeTaperSecsFieldNumber
  | kTimeOtherSecsFieldNumber
  | kTempMinFieldNumber
  | kTempAvgFieldNumber
  | kTempMaxFieldNumber
  | kIbattMinFieldNumber
  | kIbattAvgFieldNumber
  | kIbattMaxFieldNumber
  | kIclMinFieldNumber
  | kIclAvgFieldNumber
  | kIclMaxFieldNumber
  | kMinAdapterPowerOutFieldNumber
  | kTimeAvgAdapterPowerOutFieldNumber
  | kMaxAdapterPowerOutFieldNumber
  | kChargingOperatingPointFieldNumber

datatype 'f VendorAtomValue = intValue int32 | floatValue 'f

text \<open>
  A \<open>VendorAtom\<close> as handed to \<open>reportVendorAtom\<close>: its atom id (\<open>kChargeStats\<close> or
  \<open>kVoltageTierStats\<close>) and its \<open>values\<close>. The vector \<open>values\<close> is given by the
  assignments \<open>values[field - kVendorAtomOffset] = val\<close> the source makes, in program
  order, each keyed by its field; the field numbers themselves are declared in the
  generated protobuf header, where distinct fields have distinct numbers. A position
  never assigned keeps the default-constructed value.
\<close>

datatype 'f VendorAtom =
    kChargeStats "(ChargeStatsField \<times> 'f VendorAtomValue) list"
  | kVoltageTierStats "(VoltageTierStatsField \<times> 'f VendorAtomValue) list"

definition charge_stats_fields :: "ChargeStatsField list" where
  "charge_stats_fields =
     [kAdapterTypeFieldNumber, kAdapterVoltageFieldNumber, kAdapterAmperageFieldNumber,
      kSsocInFieldNumber, kVoltageInFieldNumber, kSsocOutFieldNumber,
      kVoltageOutFieldNumber, kChargeCapacityFieldNumber, kCsiAggregateStatusFieldNumber,
      kCsiAggregateTypeFieldNumber, kAdapterCapabilities0FieldNumber,
      kAdapterCapabilities1FieldNumber, kAdapterCapabilities2FieldNumber,
      kAdapterCapabilities3FieldNumber, kAdapterCapabilities4FieldNumber,
      kReceiverState0FieldNumber, kReceiverState1FieldNumber]"

definition voltage_tier_stats_fields :: "VoltageTierStatsField list" where
  "voltage_tier_stats_fields =
     [kVoltageTierFieldNumber, kSocInFieldNumber, kCcInFieldNumber, kTempInFieldNumber,
      kTimeFastSecsFieldNumber, kTimeTaperSecsFieldNumber, kTimeOtherSecsFieldNumber,
      kTempMinFieldNumber, kTempAvgFieldNumber, kTempMaxFieldNumber,
      kIbattMinFieldNumber, kIbattAvgFieldNumber, kIbattMaxFieldNumber,
      kIclMinFieldNumber, kIclAvgFieldNumber, kIclMaxFieldNumber,
      kMinAdapterPowerOutFieldNumber, kTimeAvgAdapterPowerOutFieldNumber,
      kMaxAdapterPowerOutFieldNumber, kChargingOperatingPointFieldNumber]"

subsection \<open>What the reporter uses and this file does not define\<close>

text \<open>
  The members of the \<open>WirelessChargeStats\<close> object that ChargeStatsReporter.cpp
  reads or writes. Member names are written without the trailing underscore of the
  source (\<open>tier_soc_\<close>, \<open>log_event_time_secs_\<close>, ...), which a constant's name
  cannot end with.
\<close>

record WirelessChargeStats =
  tier_soc :: int32
  pout_min :: int32
  pout_avg :: int32
  pout_max :: int32
  of_freq :: int32

text \<open>
  Constants of the headers, the methods of \<open>WirelessChargeStats\<close>, and the two
  floating-point operations (the conversion of \<open>%f\<close> and \<open>static_cast<int>\<close> of a
  \<open>float\<close>) are parameters; \<open>'f\<close> is the type of \<open>float\<close> values.
\<close>

record 'f platform =
  kThermalChargeMetricsPath :: string
  kGChargerMetricsPath :: string
  kGDualBattMetricsPath :: string
  ADAPTER_TYPE_USB_PD_PPS :: int32
  TranslateSysModeToAtomValue :: "int32 \<Rightarrow> int32"
  CalculateWirelessChargeStats :: "int32 \<Rightarrow> string \<Rightarrow> WirelessChargeStats \<Rightarrow> WirelessChargeStats"
  strtof :: "string \<Rightarrow> ('f \<times> string) option"
  static_cast_int :: "'f \<Rightarrow> int32"

text \<open>
  What one drain gets from outside: the boot clock read by \<open>getTimeSecs\<close>, and the
  results (return value and file contents) of \<open>CheckPcaContentsAndAck\<close> and
  \<open>CheckWirelessContentsAndAck\<close>, which read and acknowledge sources of their own.
\<close>

record drain_input =
  getTimeSecs :: int64
  CheckPcaContentsAndAck :: "bool \<times> string"
  CheckWirelessContentsAndAck :: "bool \<times> string"

record ChargeStatsReporter =
  log_event_time_secs :: int64
  wireless_charge_stats :: WirelessChargeStats


subsection \<open>\<open>ReportChargeStats\<close>\<close>

definition CHG_STATS_FMT0 :: string where
  "CHG_STATS_FMT0 = ''%d,%d,%d, %d,%d,%d,%d''"

definition CHG_STATS_FMT1 :: string where
  "CHG_STATS_FMT1 = ''%d,%d,%d, %d,%d,%d,%d %d''"

definition CHG_STATS_FMT2 :: string where
  "CHG_STATS_FMT2 = ''%d,%d,%d, %d,%d,%d,%d %d %d,%d''"

definition chg_fields_size :: nat where
  "chg_fields_size = 17"

definition wlc_fields_size :: nat where
  "wlc_fields_size = 7"

text \<open>
  Lines 87 to 104: the three \<open>sscanf\<close> calls on the summary line, each storing into
  \<open>tmp\<close> from index 0 whatever it converts. The tag names the branch taken; \<open>None\<close> is
  the \<open>return\<close> of line 103.
\<close>

datatype summary_format = CSI | AACR | BASE

definition scan_summary :: "string \<Rightarrow> (summary_format \<times> int32 list) option" where
  "scan_summary line =
     (let tmp = replicate chg_fields_size 0;
          (n2, v2) = sscanf_ints (c_str line) CHG_STATS_FMT2;
          tmp = store tmp [0, 1, 2, 3, 4, 5, 6, 7, 8, 9] v2
      in if n2 = 10 then Some (CSI, tmp)
      else
        (let (n1, v1) = sscanf_ints (c_str line) CHG_STATS_FMT1;
             tmp = store tmp [0, 1, 2, 3, 4, 5, 6, 7] v1
         in if n1 = 8 then Some (AACR, tmp)
         else
           (let (n0, v0) = sscanf_ints (c_str line) CHG_STATS_FMT0;
                tmp = store tmp [0, 1, 2, 3, 4, 5, 6] v0
            in if n0 \<noteq> 7 then None else Some (BASE, tmp))))"

text \<open>
  Lines 106 to 120: the wireless lines. \<open>ssoc_tmp\<close> starts at 0 and takes the value
  of \<open>A:%d\<close> when one is converted.
\<close>

definition merge_wireless ::
  "'f platform \<Rightarrow> string \<Rightarrow> string \<Rightarrow> int32 list \<times> nat \<Rightarrow> int32 list \<times> nat"
where
  "merge_wireless P wline_at wline_ac st =
     (case st of (tmp, fields_size) \<Rightarrow>
      if wline_at \<noteq> [] then
        (let (n, v) = sscanf_ints (c_str wline_at) ''A:%d'';
             ssoc_tmp = (case v of [] \<Rightarrow> 0 | x # _ \<Rightarrow> x)
         in if n \<noteq> 1 then (tmp, fields_size)
         else
           (let tmp = tmp[0 := TranslateSysModeToAtomValue P ssoc_tmp];
                (m, u) = sscanf_ints (c_str wline_ac) ''D:%x,%x,%x,%x,%x, %x,%x'';
                tmp = store tmp [10, 11, 12, 13, 14, 15, 16] u
            in if m \<noteq> 7 then (tmp, fields_size) else (tmp, chg_fields_size)))
      else (tmp, fields_size))"

text \<open>
  Lines 122 to 141: the PCA line. \<open>pca_ac[2]\<close> and \<open>pca_rs[5]\<close> are the two local
  arrays the scan stores into.
\<close>

definition merge_pca ::
  "'f platform \<Rightarrow> string \<Rightarrow> string \<Rightarrow> int32 list \<times> nat \<Rightarrow> int32 list \<times> nat"
where
  "merge_pca P wline_at pca_line st =
     (case st of (tmp, fields_size) \<Rightarrow>
      if pca_line \<noteq> [] then
        (let (n, v) = sscanf_ints (c_str pca_line) ''D:%x,%x %x,%x,%x,%x,%x'';
             pca_ac = store [0, 0] [0, 1] (take 2 v);
             pca_rs = store [0, 0, 0, 0, 0] [0, 1, 2, 3, 4] (drop 2 v)
         in if n \<noteq> 7 then (tmp, fields_size)
         else
           (let tmp = tmp[12 := pca_rs ! 2, 13 := pca_rs ! 3, 14 := pca_rs ! 4,
                          16 := pca_rs ! 1]
            in if wline_at = [] then
                 (tmp[0 := ADAPTER_TYPE_USB_PD_PPS P, 10 := pca_ac ! 0, 11 := pca_ac ! 1,
                      15 := pca_rs ! 0], chg_fields_size)
               else (tmp, chg_fields_size)))
      else (tmp, fields_size))"

text \<open>
  Lines 143 to 156: the lines of the generic charger's file, up to the first one that
  converts seven values. The arrays \<open>pca_ac\<close> and \<open>pca_rs\<close> are read only behind a
  scan that has stored all seven, so what earlier scans left in them is never seen.
\<close>

fun gcharger_pdo :: "string list \<Rightarrow> int32 list \<Rightarrow> int32 list" where
  "gcharger_pdo [] tmp = tmp"
| "gcharger_pdo (pdo_line # ls) tmp =
     (let (n, v) = sscanf_ints (c_str pdo_line) ''D:%x,%x,%x,%x,%x,%x,%x'';
          pca_ac = store [0, 0] [0, 1] (take 2 v);
          pca_rs = store [0, 0, 0, 0, 0] [0, 1, 2, 3, 4] (drop 2 v)
      in if n \<noteq> 7 then gcharger_pdo ls tmp
      else tmp[15 := pca_ac ! 1, 16 := pca_rs ! 4])"

definition merge_gcharger :: "'f platform \<Rightarrow> fs \<Rightarrow> int32 list \<Rightarrow> int32 list" where
  "merge_gcharger P w tmp =
     (case ReadFileToString (kGChargerMetricsPath P) w of
        None \<Rightarrow> tmp
      | Some file_contents \<Rightarrow> gcharger_pdo (getlines file_contents) tmp)"

text \<open>
  Lines 79 to 156 together: the array \<open>tmp\<close> and \<open>fields_size\<close> as they stand before
  the loop that fills \<open>values\<close>, or \<open>None\<close> when the function has returned.
\<close>

definition charge_stats_slots ::
  "'f platform \<Rightarrow> fs \<Rightarrow> string \<Rightarrow> string \<Rightarrow> string \<Rightarrow> string \<Rightarrow> (int32 list \<times> nat) option"
where
  "charge_stats_slots P w line wline_at wline_ac pca_line =
     (case scan_summary line of
        None \<Rightarrow> None
      | Some (_, tmp) \<Rightarrow>
          (case merge_pca P wline_at pca_line
                  (merge_wireless P wline_at wline_ac (tmp, chg_fields_size - wlc_fields_size)) of
             (tmp, fields_size) \<Rightarrow> Some (merge_gcharger P w tmp, fields_size)))"

text \<open>
  Lines 158 to 161: the loop that fills \<open>values\<close> from \<open>tmp\<close>, one assignment for
  each \<open>i < fields_size\<close>.
\<close>

definition charge_values ::
  "int32 list \<Rightarrow> nat \<Rightarrow> (ChargeStatsField \<times> 'f VendorAtomValue) list"
where
  "charge_values tmp fields_size =
     map (\<lambda>i. (charge_stats_fields ! i, intValue (tmp ! i))) [0..<fields_size]"

text \<open>
  Lines 163 to 168: the atom reported. The result of \<open>reportVendorAtom\<close> is only
  logged.
\<close>

definition ReportChargeStats ::
  "'f platform \<Rightarrow> fs \<Rightarrow> string \<Rightarrow> string \<Rightarrow> string \<Rightarrow> string \<Rightarrow> 'f VendorAtom option"
where
  "ReportChargeStats P w line wline_at wline_ac pca_line =
     (case charge_stats_slots P w line wline_at wline_ac pca_line of
        None \<Rightarrow> None
      | Some (tmp, fields_size) \<Rightarrow>
          Some (kChargeStats (charge_values tmp fields_size)))"

subsection \<open>\<open>ReportVoltageTierStats\<close>\<close>

definition vtier_fields_size :: nat where
  "vtier_fields_size = 20"

text \<open>
  Lines 223 to 230: the assignments to \<open>values\<close>: the tier index, the state of
  charge as a \<open>floatValue\<close>, then \<open>tmp[i - 1]\<close> for each \<open>2 \<le> i < fields_size\<close>.
\<close>

definition tier_values ::
  "int32 list \<Rightarrow> 'f \<Rightarrow> nat \<Rightarrow> (VoltageTierStatsField \<times> 'f VendorAtomValue) list"
where
  "tier_values tmp ssoc_tmp fields_size =
     (voltage_tier_stats_fields ! 0, intValue (tmp ! 0))
     # (voltage_tier_stats_fields ! 1, floatValue ssoc_tmp)
     # map (\<lambda>i. (voltage_tier_stats_fields ! i, intValue (tmp ! (i - 1)))) [2..<fields_size]"

text \<open>
  The tier line is the \<open>const char *\<close> the caller passes. A return value of 16 means
  that all sixteen conversions were stored, the second into \<open>ssoc_tmp\<close> and the others
  into \<open>tmp[0]\<close> to \<open>tmp[14]\<close>; the last case of the match is never reached.
\<close>

definition ReportVoltageTierStats ::
  "'f platform \<Rightarrow> string \<Rightarrow> bool \<Rightarrow> string \<Rightarrow> WirelessChargeStats
     \<Rightarrow> WirelessChargeStats \<times> 'f VendorAtom option"
where
  "ReportVoltageTierStats P line has_wireless wfile_contents wcs =
     (let (n, v) = sscanf (strtof P) line
                     ''%d, %f,%d,%d, %d,%d,%d, %d,%d,%d, %d,%d,%d, %d,%d,%d''
      in if n \<noteq> 16 then (wcs, None)
      else
        (case v of
           ScInt t0 # ScFloat ssoc_tmp # rest \<Rightarrow>
             (let tmp = store (replicate (vtier_fields_size - 1) 0)
                          [0, 1, 2, 3, 4, 5, 6, 7, 8, 9, 10, 11, 12, 13, 14]
                          (t0 # ints_of rest);
                  wcs' = (if has_wireless
                          then CalculateWirelessChargeStats P (static_cast_int P ssoc_tmp)
                                 wfile_contents wcs
                          else wcs);
                  tmp = (if has_wireless
                         then tmp[15 := pout_min wcs', 16 := pout_avg wcs',
                                  17 := pout_max wcs', 18 := of_freq wcs']
                         else tmp);
                  fields_size = (if has_wireless then vtier_fields_size
                                 else vtier_fields_size - 4)
              in (wcs', Some (kVoltageTierStats (tier_values tmp ssoc_tmp fields_size))))
         | _ \<Rightarrow> (wcs, None)))"

subsection \<open>The throttle\<close>

definition DURATION_FILTER_SECS :: int64 where
  "DURATION_FILTER_SECS = 15"

text \<open>
  \<open>shouldReportEvent\<close>, with the value \<open>getTimeSecs()\<close> returned as its argument. The
  comparison is the signed one of \<open>int64_t\<close>.
\<close>

definition shouldReportEvent ::
  "int64 \<Rightarrow> ChargeStatsReporter \<Rightarrow> bool \<times> ChargeStatsReporter"
where
  "shouldReportEvent current_time r =
     (if current_time = 0 then (False, r)
      else if log_event_time_secs r = 0
              \<or> log_event_time_secs r + DURATION_FILTER_SECS <s current_time
        then (True, r\<lparr>log_event_time_secs := current_time\<rparr>)
      else (False, r))"

subsection \<open>\<open>checkContentsAndAck\<close> and \<open>checkAndReport\<close>\<close>

definition checkContentsAndAck :: "string \<Rightarrow> fs \<Rightarrow> bool \<times> string \<times> fs" where
  "checkContentsAndAck path w =
     (case ReadFileToString path w of
        None \<Rightarrow> (False, [], w)
      | Some file_contents \<Rightarrow>
          (case WriteStringToFile ''0'' path w of
             (ok, w') \<Rightarrow>
               if \<not> ok then (False, file_contents, w') else (True, file_contents, w')))"

text \<open>A \<open>while (std::getline(...)) ReportVoltageTierStats(...)\<close> loop over the lines.\<close>

fun report_tier_lines ::
  "'f platform \<Rightarrow> bool \<Rightarrow> string \<Rightarrow> string list \<Rightarrow> WirelessChargeStats
     \<Rightarrow> WirelessChargeStats \<times> 'f VendorAtom list"
where
  "report_tier_lines P has_wireless wfile_contents [] wcs = (wcs, [])"
| "report_tier_lines P has_wireless wfile_contents (line # ls) wcs =
     (case ReportVoltageTierStats P (c_str line) has_wireless wfile_contents wcs of
        (wcs1, ev) \<Rightarrow>
          (case report_tier_lines P has_wireless wfile_contents ls wcs1 of
             (wcs2, evs) \<Rightarrow> (wcs2, (case ev of None \<Rightarrow> [] | Some e \<Rightarrow> [e]) @ evs)))"

text \<open>
  Lines 318 to 325, 327 to 334 and 336 to 343 are the same block for three paths: the
  source is checked and acknowledged, and each of its lines goes to
  \<open>ReportVoltageTierStats\<close> with the default arguments (no wireless data).
\<close>

definition report_tier_source ::
  "'f platform \<Rightarrow> string \<Rightarrow> fs \<times> WirelessChargeStats
     \<Rightarrow> fs \<times> WirelessChargeStats \<times> 'f VendorAtom list"
where
  "report_tier_source P path st =
     (case st of (w, wcs) \<Rightarrow>
      (case checkContentsAndAck path w of
         (has, file_contents, w') \<Rightarrow>
           if has then
             (case report_tier_lines P False [] (getlines file_contents) wcs of
                (wcs', evs) \<Rightarrow> (w', wcs', evs))
           else (w', wcs, [])))"

text \<open>
  Lines 291 to 297: the first line of the PCA contents, when the check reports them;
  \<open>pca_line\<close> stays empty otherwise.
\<close>

definition pca_line_of :: "drain_input \<Rightarrow> string" where
  "pca_line_of inp =
     (case CheckPcaContentsAndAck inp of
        (has_pca, pca_file_contents) \<Rightarrow>
          if has_pca
          then (case getline pca_file_contents of None \<Rightarrow> [] | Some (l, _) \<Rightarrow> l)
          else [])"

text \<open>
  Lines 299 to 307: the first two lines of the wireless contents, \<open>wline_at\<close> and
  \<open>wline_ac\<close>; both stay empty when the check reports no contents.
\<close>

definition wireless_lines_of :: "drain_input \<Rightarrow> string \<times> string" where
  "wireless_lines_of inp =
     (case CheckWirelessContentsAndAck inp of
        (has_wireless, wfile_contents) \<Rightarrow>
          if has_wireless
          then (case getline wfile_contents of
                  None \<Rightarrow> ([], [])
                | Some (wline_at, wss) \<Rightarrow>
                    (wline_at, (case getline wss of None \<Rightarrow> [] | Some (l, _) \<Rightarrow> l)))
          else ([], []))"

text \<open>Lines 318 to 343: the thermal, generic-charger and dual-battery sources, in this order.\<close>

definition report_tier_sources ::
  "'f platform \<Rightarrow> fs \<times> WirelessChargeStats \<Rightarrow> fs \<times> WirelessChargeStats \<times> 'f VendorAtom list"
where
  "report_tier_sources P st =
     (case report_tier_source P (kThermalChargeMetricsPath P) st of
        (w2, wcs2, thermal) \<Rightarrow>
          (case report_tier_source P (kGChargerMetricsPath P) (w2, wcs2) of
             (w3, wcs3, gcharger) \<Rightarrow>
               (case report_tier_source P (kGDualBattMetricsPath P) (w3, wcs3) of
                  (w4, wcs4, dual_batt) \<Rightarrow> (w4, wcs4, thermal @ gcharger @ dual_batt))))"

text \<open>
  Lines 308 to 309: the wireless statistics the tier lines start from, with the
  initial tier state of charge reset when wireless contents are present.
\<close>

definition initial_tier_stats :: "drain_input \<Rightarrow> ChargeStatsReporter \<Rightarrow> WirelessChargeStats" where
  "initial_tier_stats inp r =
     (if fst (CheckWirelessContentsAndAck inp)
      then (wireless_charge_stats r)\<lparr>tier_soc := 0\<rparr>
      else wireless_charge_stats r)"

text \<open>
  \<open>checkAndReport\<close>: one drain of the source at \<open>path\<close>. It returns the reporter, the
  file system and the atoms handed to the stats service, in order.
\<close>

definition checkAndReport ::
  "'f platform \<Rightarrow> drain_input \<Rightarrow> string \<Rightarrow> ChargeStatsReporter \<times> fs
     \<Rightarrow> ChargeStatsReporter \<times> fs \<times> 'f VendorAtom list"
where
  "checkAndReport P inp path st =
     (case st of (r, w) \<Rightarrow>
      (case ReadFileToString path w of
         None \<Rightarrow> (r, w, [])
       | Some file_contents \<Rightarrow>
           (case getline file_contents of
              None \<Rightarrow> (r, w, [])
            | Some (line, ss) \<Rightarrow>
                (case WriteStringToFile ''0'' path w of
                   (_, w1) \<Rightarrow>
                     (case shouldReportEvent (getTimeSecs inp) r of
                        (ok, r1) \<Rightarrow>
                          if \<not> ok then (r1, w1, [])
                          else
                            (let pca_line = pca_line_of inp;
                                 has_wireless = fst (CheckWirelessContentsAndAck inp);
                                 wfile_contents = snd (CheckWirelessContentsAndAck inp);
                                 (wline_at, wline_ac) = wireless_lines_of inp;
                                 wcs = initial_tier_stats inp r1;
                                 session = ReportChargeStats P w1 line wline_at wline_ac pca_line;
                                 (wcs1, tiers) =
                                   report_tier_lines P has_wireless wfile_contents (getlines ss) wcs;
                                 (w4, wcs4, aux) = report_tier_sources P (w1, wcs1)
                             in (r1\<lparr>wireless_charge_stats := wcs4\<rparr>, w4,
                                 (case session of None \<Rightarrow> [] | Some e \<Rightarrow> [e])
                                   @ tiers @ aux)))))))"

subsection \<open>Reading the atoms\<close>

text \<open>
  The slots of a record are numbered as the source's \<open>tmp\<close> array is: slot \<open>i\<close> of a
  session record is the value assigned for \<open>charge_stats_fields[i]\<close>. The number of
  populated slots is the number of positions of \<open>values\<close> that were assigned.
\<close>

definition charge_slot :: "'f VendorAtom \<Rightarrow> nat \<Rightarrow> 'f VendorAtomValue option" where
  "charge_slot e i =
     (case e of
        kChargeStats vs \<Rightarrow> map_of vs (charge_stats_fields ! i)
      | kVoltageTierStats _ \<Rightarrow> None)"

definition populated_slots :: "'f VendorAtom \<Rightarrow> nat" where
  "populated_slots e =
     (case e of
        kChargeStats vs \<Rightarrow> length (remdups (map fst vs))
      | kVoltageTierStats vs \<Rightarrow> length (remdups (map fst vs)))"

definition is_tier :: "'f VendorAtom \<Rightarrow> bool" where
  "is_tier e = (case e of kChargeStats _ \<Rightarrow> False | kVoltageTierStats _ \<Rightarrow> True)"

definition schema_width_ok :: "'f VendorAtom \<Rightarrow> bool" where
  "schema_width_ok e =
     (case e of
        kChargeStats _ \<Rightarrow> populated_slots e = 10 \<or> populated_slots e = 17
      | kVoltageTierStats _ \<Rightarrow> populated_slots e = 16 \<or> populated_slots e = 20)"

text \<open>
  The first line of the generic charger's file that converts seven values under the
  PDO format, if the file can be read and has one.
\<close>

definition gcharger_pdo_line :: "'f platform \<Rightarrow> fs \<Rightarrow> string option" where
  "gcharger_pdo_line P w =
     (case ReadFileToString (kGChargerMetricsPath P) w of
        None \<Rightarrow> None
      | Some file_contents \<Rightarrow>
          find (\<lambda>l. fst (sscanf_ints (c_str l) ''D:%x,%x,%x,%x,%x,%x,%x'') = 7)
            (getlines file_contents))"

text \<open>
  The two conditions under which \<open>fields_size\<close> is raised to \<open>chg_fields_size\<close>:
  line 118 (\<open>include wlc stats\<close>) is reached when the wireless adapter-type line is not
  empty and converts its value and the capability line converts seven; line 128
  (\<open>include pca stats\<close>) when the PCA line is not empty and converts seven.
\<close>

definition wlc_included :: "string \<Rightarrow> string \<Rightarrow> bool" where
  "wlc_included wline_at wline_ac \<longleftrightarrow>
     wline_at \<noteq> [] \<and> fst (sscanf_ints (c_str wline_at) ''A:%d'') = 1
     \<and> fst (sscanf_ints (c_str wline_ac) ''D:%x,%x,%x,%x,%x, %x,%x'') = 7"

definition pca_included :: "string \<Rightarrow> bool" where
  "pca_included pca_line \<longleftrightarrow>
     pca_line \<noteq> [] \<and> fst (sscanf_ints (c_str pca_line) ''D:%x,%x %x,%x,%x,%x,%x'') = 7"

subsection \<open>Instances for the examples\<close>

text \<open>
  A conversion for \<open>%f\<close> that reads plain decimal numbers (an optional sign, digits,
  an optional fraction), with the value kept as the digits read and the number of
  fraction digits; \<open>static_cast<int>\<close> drops the fraction, towards zero.
\<close>

definition strtof_decimal :: "string \<Rightarrow> ((int \<times> nat) \<times> string) option" where
  "strtof_decimal s =
     (case take_sign s of
        (neg, r) \<Rightarrow>
          if takeWhile isdigit r = [] then None
          else
            (let ip = int (digits_val 10 (takeWhile isdigit r));
                 r1 = dropWhile isdigit r;
                 fr = (case r1 of
                         [] \<Rightarrow> []
                       | c # cs \<Rightarrow> if c = CHR ''.'' then takeWhile isdigit cs else []);
                 r2 = (case r1 of
                         [] \<Rightarrow> []
                       | c # cs \<Rightarrow> if c = CHR ''.'' then dropWhile isdigit cs else r1);
                 m = ip * 10 ^ length fr + int (digits_val 10 fr)
             in Some ((if neg then - m else m, length fr), r2)))"

definition trunc_decimal :: "int \<times> nat \<Rightarrow> int32" where
  "trunc_decimal v =
     (case v of (m, e) \<Rightarrow> word_of_int (sgn m * (\<bar>m\<bar> div 10 ^ e)))"

definition example_platform :: "(int \<times> nat) platform" where
  "example_platform =
     \<lparr>kThermalChargeMetricsPath = ''thermal_stats'',
      kGChargerMetricsPath = ''charge_stats'',
      kGDualBattMetricsPath = ''dbatt_stats'',
      ADAPTER_TYPE_USB_PD_PPS = 9,
      TranslateSysModeToAtomValue = (\<lambda>m. m + 100),
      CalculateWirelessChargeStats =
        (\<lambda>soc txt wcs. wcs\<lparr>tier_soc := soc, pout_min := 1, pout_avg := 2, pout_max := 3,
                            of_freq := 4\<rparr>),
      strtof = strtof_decimal,
      static_cast_int = trunc_decimal\<rparr>"

definition idle_reporter :: ChargeStatsReporter where
  "idle_reporter =
     \<lparr>log_event_time_secs = 0,
      wireless_charge_stats =
        \<lparr>tier_soc = 0, pout_min = 0, pout_avg = 0, pout_max = 0, of_freq = 0\<rparr>\<rparr>"

definition summary_line :: string where
  "summary_line = ''3,9000,2000, 80,4400,90,4450''"

definition tier_line :: string where
  "tier_line = ''1, 85.5,1200,320, 10,5,2, 15,18,22, -200,-150,-100, 50,55,60''"

text \<open>A text file with the given lines, each ended by a newline.\<close>

fun text_of_lines :: "string list \<Rightarrow> string" where
  "text_of_lines [] = []"
| "text_of_lines (l # ls) = l @ CHR 0x0A # text_of_lines ls"

declare text_of_lines.simps [simp del]

definition wlc_at_line :: string where
  "wlc_at_line = ''A:2''"

definition wlc_cap_line :: string where
  "wlc_cap_line = ''D:1,2,3,4,5, 6,7''"

definition pca_example_line :: string where
  "pca_example_line = ''D:a,b c,d,e,f,10''"

definition pdo_line :: string where
  "pdo_line = ''D:a1,a2,a3,a4,a5,a6,a7''"

text \<open>The drain input at a clock reading, with no PCA and no wireless contents.\<close>

definition plain_input :: "int64 \<Rightarrow> drain_input" where
  "plain_input now =
     \<lparr>getTimeSecs = now, CheckPcaContentsAndAck = (False, []),
      CheckWirelessContentsAndAck = (False, [])\<rparr>"

text \<open>
  The drain input with wireless contents: the adapter type line and the capability
  line.
\<close>

definition wireless_input :: "int64 \<Rightarrow> drain_input" where
  "wireless_input now =
     \<lparr>getTimeSecs = now, CheckPcaContentsAndAck = (False, []),
      CheckWirelessContentsAndAck = (True, text_of_lines [wlc_at_line, wlc_cap_line])\<rparr>"

text \<open>
  A drain input with PCA contents and with wireless contents whose first line is
  empty.
\<close>

definition blank_first_input :: drain_input where
  "blank_first_input =
     \<lparr>getTimeSecs = 100, CheckPcaContentsAndAck = (True, text_of_lines [pca_example_line]),
      CheckWirelessContentsAndAck = (True, text_of_lines [[], wlc_cap_line])\<rparr>"

text \<open>
  A file system with a primary log (a first line, then a tier line) and a thermal
  log holding one tier line; \<open>locked\<close> lists the paths whose writes fail.
\<close>

definition example_fs :: "string \<Rightarrow> string list \<Rightarrow> fs" where
  "example_fs first_line locked =
     \<lparr>files = [''primary'' \<mapsto> text_of_lines [first_line, tier_line],
               ''thermal_stats'' \<mapsto> text_of_lines [tier_line]],
      writable = (\<lambda>p. p \<notin> set locked)\<rparr>"

text \<open>
  A file system whose only file is the generic charger's, a cleared line followed by a
  PDO line.
\<close>

definition pdo_fs :: fs where
  "pdo_fs =
     \<lparr>files = [''charge_stats'' \<mapsto> text_of_lines [''0'', pdo_line]],
      writable = (\<lambda>p. True)\<rparr>"

text \<open>The atoms of the example lines.\<close>

definition example_tier_atom :: "(int \<times> nat) VendorAtom" where
  "example_tier_atom =
     kVoltageTierStats
       (tier_values [1, 1200, 320, 10, 5, 2, 15, 18, 22, - 200, - 150, - 100, 50, 55, 60,
                     0, 0, 0, 0] (855, 1) 16)"

definition example_tier_atom_wireless :: "(int \<times> nat) VendorAtom" where
  "example_tier_atom_wireless =
     kVoltageTierStats
       (tier_values [1, 1200, 320, 10, 5, 2, 15, 18, 22, - 200, - 150, - 100, 50, 55, 60,
                     1, 2, 3, 4] (855, 1) 20)"

definition example_session_atom :: "(int \<times> nat) VendorAtom" where
  "example_session_atom =
     kChargeStats
       (charge_values [3, 9000, 2000, 80, 4400, 90, 4450, 0, 0, 0, 0, 0, 0, 0, 0, 0, 0] 10)"

text \<open>The number of conversions among the directives of a format.\<close>

fun conversions :: "directive list \<Rightarrow> nat" where
  "conversions [] = 0"
| "conversions (Space # ds) = conversions ds"
| "conversions (Lit c # ds) = conversions ds"
| "conversions (d # ds) = Suc (conversions ds)"

definition csi_line :: string where
  "csi_line = ''3,9000,2000, 80,4400,90,4450 4000 1,2''"

definition junk_line :: string where
  "junk_line = ''junk''"


section \<open>Lemmas about the model\<close>

lemma sint_add_no_overflow:
  fixes a :: int64
  assumes "0 \<le> sint a" and "sint a + int d < 2 ^ 63"
  shows "sint (a + word_of_nat d) = sint a + int d"
proof -
  have d: "int d < 2 ^ 63" using assms by linarith
  have sd: "sint (word_of_nat d :: int64) = int d"
    using d by (simp add: signed_of_nat signed_take_bit_int_eq_self)
  have "sint (a + word_of_nat d) = signed_take_bit 63 (sint a + sint (word_of_nat d :: int64))"
    by (simp add: sint_word_ariths)
  also have "\<dots> = sint a + int d"
    using assms by (simp add: sd signed_take_bit_int_eq_self)
  finally show ?thesis .
qed

lemma shouldReportEvent_rejected:
  "\<not> fst (shouldReportEvent t r) \<Longrightarrow> snd (shouldReportEvent t r) = r"
  by (simp add: shouldReportEvent_def split: if_splits)

lemma shouldReportEvent_accepted:
  "fst (shouldReportEvent t r) \<Longrightarrow>
     snd (shouldReportEvent t r) = r\<lparr>log_event_time_secs := t\<rparr> \<and> t \<noteq> 0"
  by (auto simp: shouldReportEvent_def split: if_splits)

lemma shouldReportEvent_zero: "shouldReportEvent 0 r = (False, r)"
  by (simp add: shouldReportEvent_def)

text \<open>
  A scan of a format without \<open>%f\<close> stores integers only, so the return value of
  \<open>sscanf\<close>, when it is not \<open>EOF\<close>, is the number of integers stored.
\<close>

lemma length_store: "length (store a ts vs) = length a"
  by (induction a ts vs rule: store.induct) simp_all

lemma scan_run_ints:
  "length (ints_of (snd (scan_run (\<lambda>_. None :: (unit \<times> string) option) ds inp)))
     = length (snd (scan_run (\<lambda>_. None :: (unit \<times> string) option) ds inp))"
proof (induction ds arbitrary: inp)
  case Nil
  show ?case by simp
next
  case (Cons d ds)
  show ?case
    by (cases d) (simp_all add: Cons.IH split_beta split: list.split option.split)
qed

lemma sscanf_ints_count:
  assumes "fst (sscanf_ints s f) = int k"
  shows "length (snd (sscanf_ints s f)) = k"
proof -
  obtain e vs where r: "scan_run (\<lambda>_. None :: (unit \<times> string) option) (parse_format f) s = (e, vs)"
    by (cases "scan_run (\<lambda>_. None :: (unit \<times> string) option) (parse_format f) s")
  have l: "length (ints_of vs) = length vs"
    using scan_run_ints [of "parse_format f" s] r by simp
  from assms r have "length vs = k"
    by (simp add: sscanf_ints_def sscanf_def split: if_splits)
  with r l show ?thesis
    by (simp add: sscanf_ints_def sscanf_def)
qed

lemma scan_run_append:
  "conversions ds1 \<le> length (snd (scan_run sf (ds1 @ ds2) inp)) \<Longrightarrow>
     snd (scan_run sf ds1 inp) = take (conversions ds1) (snd (scan_run sf (ds1 @ ds2) inp))"
proof (induction ds1 arbitrary: inp)
  case Nil
  show ?case by simp
next
  case (Cons d ds)
  note IH = Cons.IH and prems = Cons.prems
  show ?case
  proof (cases d)
    case Space
    with IH prems show ?thesis by simp
  next
    case (Lit c)
    with IH prems show ?thesis by (cases inp) auto
  next
    case ConvD
    show ?thesis
    proof (cases "dropWhile isspace inp")
      case Nil
      with ConvD prems show ?thesis by simp
    next
      case (Cons x xs)
      show ?thesis
      proof (cases "scan_dec (x # xs)")
        case None
        with ConvD Cons prems show ?thesis by simp
      next
        case (Some p)
        obtain v rest where p: "p = (v, rest)" by (cases p)
        from prems ConvD Cons Some p
        have "conversions ds \<le> length (snd (scan_run sf (ds @ ds2) rest))"
          by (simp add: split_beta)
        from IH [OF this] ConvD Cons Some p show ?thesis
          by (simp add: split_beta)
      qed
    qed
  next
    case ConvX
    show ?thesis
    proof (cases "dropWhile isspace inp")
      case Nil
      with ConvX prems show ?thesis by simp
    next
      case (Cons x xs)
      show ?thesis
      proof (cases "scan_hex (x # xs)")
        case None
        with ConvX Cons prems show ?thesis by simp
      next
        case (Some p)
        obtain v rest where p: "p = (v, rest)" by (cases p)
        from prems ConvX Cons Some p
        have "conversions ds \<le> length (snd (scan_run sf (ds @ ds2) rest))"
          by (simp add: split_beta)
        from IH [OF this] ConvX Cons Some p show ?thesis
          by (simp add: split_beta)
      qed
    qed
  next
    case ConvF
    show ?thesis
    proof (cases "dropWhile isspace inp")
      case Nil
      with ConvF prems show ?thesis by simp
    next
      case (Cons x xs)
      show ?thesis
      proof (cases "sf (x # xs)")
        case None
        with ConvF Cons prems show ?thesis by simp
      next
        case (Some p)
        obtain v rest where p: "p = (v, rest)" by (cases p)
        from prems ConvF Cons Some p
        have "conversions ds \<le> length (snd (scan_run sf (ds @ ds2) rest))"
          by (simp add: split_beta)
        from IH [OF this] ConvF Cons Some p show ?thesis
          by (simp add: split_beta)
      qed
    qed
  qed
qed

lemma parse_FMT0: "parse_format CHG_STATS_FMT0 =
  [ConvD, Lit CHR '','', ConvD, Lit CHR '','', ConvD, Lit CHR '','', Space, ConvD, Lit CHR '','',
   ConvD, Lit CHR '','', ConvD, Lit CHR '','', ConvD]"
  by (simp add: CHG_STATS_FMT0_def isspace_def)

lemma parse_FMT1: "parse_format CHG_STATS_FMT1 = parse_format CHG_STATS_FMT0 @ [Space, ConvD]"
  by (simp add: CHG_STATS_FMT0_def CHG_STATS_FMT1_def isspace_def)

lemma parse_FMT2: "parse_format CHG_STATS_FMT2 =
   parse_format CHG_STATS_FMT1 @ [Space, ConvD, Lit CHR '','', ConvD]"
  by (simp add: CHG_STATS_FMT1_def CHG_STATS_FMT2_def isspace_def)

lemma conversions_FMT0: "conversions (parse_format CHG_STATS_FMT0) = 7"
  by (simp add: parse_FMT0)

lemma conversions_FMT1: "conversions (parse_format CHG_STATS_FMT1) = 8"
  by (simp add: parse_FMT1 parse_FMT0)

lemma fst_sscanf_ints:
  "fst (sscanf_ints s f) =
     (if fst (scan_run (\<lambda>_. None :: (unit \<times> string) option) (parse_format f) s)
         \<and> snd (scan_run (\<lambda>_. None :: (unit \<times> string) option) (parse_format f) s) = []
      then - 1
      else int (length (snd (scan_run (\<lambda>_. None :: (unit \<times> string) option) (parse_format f) s))))"
  by (simp add: sscanf_ints_def sscanf_def split_beta)

lemma snd_sscanf_ints:
  "snd (sscanf_ints s f) =
     ints_of (snd (scan_run (\<lambda>_. None :: (unit \<times> string) option) (parse_format f) s))"
  by (simp add: sscanf_ints_def sscanf_def split_beta)

lemma csi_has_aacr_shape:
  assumes "fst (sscanf_ints s CHG_STATS_FMT2) = 10"
  shows "fst (sscanf_ints s CHG_STATS_FMT1) = 8"
proof -
  let ?sf = "\<lambda>_. None :: (unit \<times> string) option"
  from assms have l2: "length (snd (scan_run ?sf (parse_format CHG_STATS_FMT2) s)) = 10"
    by (simp add: fst_sscanf_ints split: if_splits)
  then have "conversions (parse_format CHG_STATS_FMT1)
      \<le> length (snd (scan_run ?sf (parse_format CHG_STATS_FMT1 @ [Space, ConvD, Lit CHR '','', ConvD]) s))"
    by (simp add: conversions_FMT1 flip: parse_FMT2)
  from scan_run_append [OF this] l2
  have "length (snd (scan_run ?sf (parse_format CHG_STATS_FMT1) s)) = 8"
    by (simp add: conversions_FMT1 flip: parse_FMT2)
  then show ?thesis
    by (auto simp: fst_sscanf_ints)
qed

lemma aacr_has_base_shape:
  assumes "fst (sscanf_ints s CHG_STATS_FMT1) = 8"
  shows "fst (sscanf_ints s CHG_STATS_FMT0) = 7"
proof -
  let ?sf = "\<lambda>_. None :: (unit \<times> string) option"
  from assms have l1: "length (snd (scan_run ?sf (parse_format CHG_STATS_FMT1) s)) = 8"
    by (simp add: fst_sscanf_ints split: if_splits)
  then have "conversions (parse_format CHG_STATS_FMT0)
      \<le> length (snd (scan_run ?sf (parse_format CHG_STATS_FMT0 @ [Space, ConvD]) s))"
    by (simp add: conversions_FMT0 flip: parse_FMT1)
  from scan_run_append [OF this] l1
  have "length (snd (scan_run ?sf (parse_format CHG_STATS_FMT0) s)) = 7"
    by (simp add: conversions_FMT0 flip: parse_FMT1)
  then show ?thesis
    by (auto simp: fst_sscanf_ints)
qed

lemma length_10_store:
  "length vs = 10 \<Longrightarrow> store (replicate 17 0) [0, 1, 2, 3, 4, 5, 6, 7, 8, 9] vs = vs @ replicate 7 0"
  by (auto simp: length_Suc_conv eval_nat_numeral)

lemma take_store_8:
  "length vs = 8 \<Longrightarrow> length a = 17 \<Longrightarrow> take 8 (store a [0, 1, 2, 3, 4, 5, 6, 7] vs) = vs"
  by (auto simp: length_Suc_conv eval_nat_numeral)

lemma take_store_7:
  "length vs = 7 \<Longrightarrow> length a = 17 \<Longrightarrow> take 7 (store a [0, 1, 2, 3, 4, 5, 6] vs) = vs"
  by (auto simp: length_Suc_conv eval_nat_numeral)

lemma map_nth_take: "n \<le> length xs \<Longrightarrow> map ((!) xs) [0..<n] = take n xs"
  by (simp add: list_eq_iff_nth_eq)

lemma map_nth_take_from2:
  "2 \<le> n \<Longrightarrow> n \<le> length xs \<Longrightarrow> xs ! 0 # xs ! 1 # map ((!) xs) [2..<n] = take n xs"
proof -
  assume a: "2 \<le> n" "n \<le> length xs"
  have "[0..<n] = 0 # 1 # [2..<n]"
    using a by (simp add: upt_conv_Cons numeral_2_eq_2)
  with map_nth_take [OF a(2)] show ?thesis by simp
qed

lemma distinct_charge_stats_fields: "distinct charge_stats_fields"
  by (simp add: charge_stats_fields_def)

lemma distinct_voltage_tier_stats_fields: "distinct voltage_tier_stats_fields"
  by (simp add: voltage_tier_stats_fields_def)

lemma length_charge_stats_fields: "length charge_stats_fields = 17"
  by (simp add: charge_stats_fields_def)

lemma length_voltage_tier_stats_fields: "length voltage_tier_stats_fields = 20"
  by (simp add: voltage_tier_stats_fields_def)

lemma populated_charge:
  "n \<le> 17 \<Longrightarrow> populated_slots (kChargeStats (charge_values tmp n)) = n"
proof -
  assume n: "n \<le> 17"
  have "map fst (charge_values tmp n :: (ChargeStatsField \<times> 'a VendorAtomValue) list)
          = map ((!) charge_stats_fields) [0..<n]"
    by (simp add: charge_values_def comp_def)
  also have "\<dots> = take n charge_stats_fields"
    using n by (simp add: map_nth_take length_charge_stats_fields)
  finally show ?thesis
    using n distinct_charge_stats_fields
    by (simp add: populated_slots_def distinct_remdups_id length_charge_stats_fields)
qed

lemma populated_tier:
  "2 \<le> n \<Longrightarrow> n \<le> 20 \<Longrightarrow> populated_slots (kVoltageTierStats (tier_values tmp s n)) = n"
proof -
  assume n: "2 \<le> n" "n \<le> 20"
  have "map fst (tier_values tmp s n)
          = voltage_tier_stats_fields ! 0 # voltage_tier_stats_fields ! 1
            # map ((!) voltage_tier_stats_fields) [2..<n]"
    by (simp add: tier_values_def comp_def)
  also have "\<dots> = take n voltage_tier_stats_fields"
    using n by (simp add: map_nth_take_from2 length_voltage_tier_stats_fields del: One_nat_def)
  finally show ?thesis
    using n distinct_voltage_tier_stats_fields
    by (simp add: populated_slots_def distinct_remdups_id length_voltage_tier_stats_fields)
qed

lemma merge_wireless_size:
  "snd (merge_wireless P a b (tmp, n)) = n \<or> snd (merge_wireless P a b (tmp, n)) = 17"
  by (simp add: merge_wireless_def split_beta chg_fields_size_def Let_def)

lemma merge_pca_size:
  "snd (merge_pca P a b (tmp, n)) = n \<or> snd (merge_pca P a b (tmp, n)) = 17"
  by (simp add: merge_pca_def split_beta chg_fields_size_def Let_def)

lemma charge_stats_slots_size:
  assumes "charge_stats_slots P w line a b c = Some (tmp, n)"
  shows "n = 10 \<or> n = 17"
proof -
  from assms obtain fmt s where s: "scan_summary line = Some (fmt, s)"
    by (auto simp: charge_stats_slots_def split: option.splits)
  obtain t1 n1 where m1: "merge_wireless P a b (s, 10) = (t1, n1)"
    by (cases "merge_wireless P a b (s, 10)")
  obtain t2 n2 where m2: "merge_pca P a c (t1, n1) = (t2, n2)"
    by (cases "merge_pca P a c (t1, n1)")
  from merge_wireless_size [of P a b s 10] m1 have "n1 = 10 \<or> n1 = 17" by simp
  moreover from merge_pca_size [of P a c t1 n1] m2 have "n2 = n1 \<or> n2 = 17" by simp
  moreover from assms s m1 m2 have "n = n2"
    by (simp add: charge_stats_slots_def chg_fields_size_def wlc_fields_size_def)
  ultimately show ?thesis by auto
qed

lemma ReportChargeStats_width:
  assumes "ReportChargeStats P w line a b c = Some e"
  shows "\<not> is_tier e \<and> (populated_slots e = 10 \<or> populated_slots e = 17)"
proof -
  from assms obtain tmp n where s: "charge_stats_slots P w line a b c = Some (tmp, n)"
    and e: "e = kChargeStats (charge_values tmp n)"
    by (auto simp: ReportChargeStats_def split: option.splits)
  from charge_stats_slots_size [OF s] have n: "n = 10 \<or> n = 17" .
  then have "n \<le> 17" by auto
  from populated_charge [OF this, of tmp] e n show ?thesis
    by (auto simp: is_tier_def)
qed

lemma ReportVoltageTierStats_width:
  assumes "snd (ReportVoltageTierStats P l hw wfc wcs) = Some e"
  shows "is_tier e \<and> (populated_slots e = 16 \<or> populated_slots e = 20)"
  using assms
  by (auto simp: ReportVoltageTierStats_def split_beta Let_def vtier_fields_size_def
        populated_tier is_tier_def
      split: if_splits list.splits scanned.splits)

lemma schema_width_ok_iff:
  "schema_width_ok e \<longleftrightarrow>
     (if is_tier e then populated_slots e = 16 \<or> populated_slots e = 20
      else populated_slots e = 10 \<or> populated_slots e = 17)"
  by (cases e) (simp_all add: schema_width_ok_def is_tier_def)

lemma report_tier_lines_width:
  "list_all (\<lambda>e. is_tier e \<and> schema_width_ok e) (snd (report_tier_lines P hw wfc ls wcs))"
proof (induction ls arbitrary: wcs)
  case Nil
  show ?case by simp
next
  case (Cons l ls)
  obtain wcs1 ev where r: "ReportVoltageTierStats P (c_str l) hw wfc wcs = (wcs1, ev)"
    by (cases "ReportVoltageTierStats P (c_str l) hw wfc wcs")
  have "list_all (\<lambda>e. is_tier e \<and> schema_width_ok e) (case ev of None \<Rightarrow> [] | Some e \<Rightarrow> [e])"
    using ReportVoltageTierStats_width [of P "c_str l" hw wfc wcs] r
    by (cases ev) (simp_all add: schema_width_ok_iff)
  with Cons.IH [of wcs1] r show ?case
    by (simp add: split_beta)
qed

lemma report_tier_source_width:
  "list_all (\<lambda>e. is_tier e \<and> schema_width_ok e) (snd (snd (report_tier_source P p st)))"
  using report_tier_lines_width [of P False "[]"]
  by (cases st) (simp add: report_tier_source_def split_beta)

lemma report_tier_sources_width:
  "list_all (\<lambda>e. is_tier e \<and> schema_width_ok e) (snd (snd (report_tier_sources P st)))"
  using report_tier_source_width [of P]
  by (simp add: report_tier_sources_def split_beta)

lemma list_all_tier_width:
  "list_all (\<lambda>e. is_tier e \<and> schema_width_ok e) es \<Longrightarrow> list_all schema_width_ok es"
  by (simp add: list_all_iff)

lemma takeWhile_no_newline:
  "CHR 0x0A \<notin> set l \<Longrightarrow> takeWhile (\<lambda>c. c \<noteq> CHR 0x0A) (l @ rest) = l @ takeWhile (\<lambda>c. c \<noteq> CHR 0x0A) rest"
  by (rule takeWhile_append2) auto

lemma dropWhile_no_newline:
  "CHR 0x0A \<notin> set l \<Longrightarrow> dropWhile (\<lambda>c. c \<noteq> CHR 0x0A) (l @ rest) = dropWhile (\<lambda>c. c \<noteq> CHR 0x0A) rest"
  by (rule dropWhile_append2) auto

lemma getline_line:
  "CHR 0x0A \<notin> set l \<Longrightarrow> getline (l @ CHR 0x0A # rest) = Some (l, rest)"
  by (simp add: getline_def takeWhile_no_newline dropWhile_no_newline)

lemma getline_last:
  "CHR 0x0A \<notin> set l \<Longrightarrow> l \<noteq> [] \<Longrightarrow> getline l = Some (l, [])"
proof -
  assume a: "CHR 0x0A \<notin> set l" and ne: "l \<noteq> []"
  have t: "takeWhile (\<lambda>c. c \<noteq> CHR 0x0A) l = l"
    using takeWhile_no_newline [OF a, of "[]"] by simp
  have d: "dropWhile (\<lambda>c. c \<noteq> CHR 0x0A) l = []"
    using dropWhile_no_newline [OF a, of "[]"] by simp
  from ne show ?thesis
    by (simp add: getline_def t d)
qed

lemma getline_Nil: "getline [] = None"
  by (simp add: getline_def)

lemma getlines_Nil: "getlines [] = []"
  by (simp add: getlines.simps getline_Nil)

lemma getline_text:
  "CHR 0x0A \<notin> set l \<Longrightarrow> getline (text_of_lines (l # ls)) = Some (l, text_of_lines ls)"
  by (simp add: getline_line text_of_lines.simps)

lemma getlines_text:
  "\<forall>l\<in>set ls. CHR 0x0A \<notin> set l \<Longrightarrow> getlines (text_of_lines ls) = ls"
proof (induction ls)
  case Nil
  show ?case by (simp add: getlines_Nil text_of_lines.simps)
next
  case (Cons l ls)
  then have "getline (text_of_lines (l # ls)) = Some (l, text_of_lines ls)"
    by (simp add: getline_text)
  with Cons show ?case
    by (subst getlines.simps) simp
qed

lemma c_str_Nil: "c_str [] = []"
  by (simp add: c_str_def)

lemma length_scan_summary: "scan_summary line = Some (fmt, s) \<Longrightarrow> length s = 17"
  by (auto simp: scan_summary_def split_beta Let_def length_store chg_fields_size_def split: if_splits)

lemma scan_A_empty: "sscanf_ints [] ''A:%d'' = (- 1, [])"
  by code_simp

lemma merge_wireless_absent: "merge_wireless P [] wline_ac st = st"
  by (cases st) (simp add: merge_wireless_def)

lemma merge_wireless_unparsed:
  "fst (sscanf_ints (c_str wline_at) ''A:%d'') \<noteq> 1 \<Longrightarrow> merge_wireless P wline_at wline_ac st = st"
  by (cases st) (simp add: merge_wireless_def split_beta)

lemma merge_wireless_parsed:
  assumes "sscanf_ints (c_str wline_at) ''A:%d'' = (1, [a])"
    and "sscanf_ints (c_str wline_ac) ''D:%x,%x,%x,%x,%x, %x,%x'' = (7, [ca, cb, cc, cd, ce, ra, rb])"
  shows "merge_wireless P wline_at wline_ac (tmp, n)
     = (tmp[0 := TranslateSysModeToAtomValue P a, 10 := ca, 11 := cb, 12 := cc, 13 := cd,
            14 := ce, 15 := ra, 16 := rb], 17)"
proof -
  have "wline_at \<noteq> []"
    using assms(1) scan_A_empty by (auto simp: c_str_Nil)
  with assms show ?thesis
    by (simp add: merge_wireless_def chg_fields_size_def)
qed

lemma merge_wireless_length: "length (fst (merge_wireless P a b (tmp, n))) = length tmp"
  by (simp add: merge_wireless_def split_beta Let_def length_store)

lemma merge_pca_absent: "merge_pca P wline_at [] st = st"
  by (cases st) (simp add: merge_pca_def)

lemma merge_pca_unparsed:
  "fst (sscanf_ints (c_str pca_line) ''D:%x,%x %x,%x,%x,%x,%x'') \<noteq> 7 \<Longrightarrow>
     merge_pca P wline_at pca_line st = st"
  by (cases st) (simp add: merge_pca_def split_beta Let_def)

lemma scan_pca_empty: "sscanf_ints [] ''D:%x,%x %x,%x,%x,%x,%x'' = (- 1, [])"
  by code_simp

lemma merge_pca_parsed:
  assumes "sscanf_ints (c_str pca_line) ''D:%x,%x %x,%x,%x,%x,%x'' = (7, [aa, ab, pa, pb, pc, pd, pe])"
  shows "merge_pca P wline_at pca_line (tmp, n)
     = (if wline_at = []
        then tmp[12 := pc, 13 := pd, 14 := pe, 16 := pb,
                 0 := ADAPTER_TYPE_USB_PD_PPS P, 10 := aa, 11 := ab, 15 := pa]
        else tmp[12 := pc, 13 := pd, 14 := pe, 16 := pb], 17)"
proof -
  have "pca_line \<noteq> []"
    using assms scan_pca_empty by (auto simp: c_str_Nil)
  with assms show ?thesis
    by (simp add: merge_pca_def chg_fields_size_def)
qed

lemma merge_pca_length: "length (fst (merge_pca P a b (tmp, n))) = length tmp"
  by (simp add: merge_pca_def split_beta Let_def)

lemma gcharger_pdo_none:
  "find (\<lambda>l. fst (sscanf_ints (c_str l) ''D:%x,%x,%x,%x,%x,%x,%x'') = 7) ls = None \<Longrightarrow>
     gcharger_pdo ls tmp = tmp"
  by (induction ls) (simp_all add: split_beta Let_def split: if_splits)

lemma gcharger_pdo_found:
  assumes "find (\<lambda>l. fst (sscanf_ints (c_str l) ''D:%x,%x,%x,%x,%x,%x,%x'') = 7) ls = Some l"
    and "snd (sscanf_ints (c_str l) ''D:%x,%x,%x,%x,%x,%x,%x'') = [ga, gb, gc, gd, ge, gf, gg]"
  shows "gcharger_pdo ls tmp = tmp[15 := gb, 16 := gg]"
  using assms
  by (induction ls) (simp_all add: split_beta Let_def split: if_splits)

lemma merge_gcharger_none:
  "gcharger_pdo_line P w = None \<Longrightarrow> merge_gcharger P w tmp = tmp"
  by (simp add: gcharger_pdo_line_def merge_gcharger_def gcharger_pdo_none split: option.splits)

lemma merge_gcharger_found:
  "gcharger_pdo_line P w = Some l \<Longrightarrow>
   snd (sscanf_ints (c_str l) ''D:%x,%x,%x,%x,%x,%x,%x'') = [ga, gb, gc, gd, ge, gf, gg] \<Longrightarrow>
   merge_gcharger P w tmp = tmp[15 := gb, 16 := gg]"
  by (simp add: gcharger_pdo_line_def merge_gcharger_def gcharger_pdo_found split: option.splits)

lemma gcharger_pdo_line_scan:
  "gcharger_pdo_line P w = Some l \<Longrightarrow> fst (sscanf_ints (c_str l) ''D:%x,%x,%x,%x,%x,%x,%x'') = 7"
  by (auto simp: gcharger_pdo_line_def find_Some_iff split: option.splits)

lemma merge_gcharger_length: "length (merge_gcharger P w tmp) = length tmp"
proof -
  have "\<And>ls. length (gcharger_pdo ls tmp) = length tmp"
  proof -
    fix ls show "length (gcharger_pdo ls tmp) = length tmp"
      by (induction ls) (simp_all add: split_beta Let_def)
  qed
  then show ?thesis
    by (simp add: merge_gcharger_def split: option.splits)
qed

lemma charge_stats_slots_eq:
  "scan_summary line = Some (fmt, s) \<Longrightarrow>
   charge_stats_slots P w line wline_at wline_ac pca_line
     = Some (merge_gcharger P w
               (fst (merge_pca P wline_at pca_line (merge_wireless P wline_at wline_ac (s, 10)))),
             snd (merge_pca P wline_at pca_line (merge_wireless P wline_at wline_ac (s, 10))))"
  by (simp add: charge_stats_slots_def chg_fields_size_def wlc_fields_size_def split_beta)

lemma length_17:
  "length (s :: int32 list) = 17 \<Longrightarrow>
     \<exists>x0 x1 x2 x3 x4 x5 x6 x7 x8 x9 x10 x11 x12 x13 x14 x15 x16.
       s = [x0, x1, x2, x3, x4, x5, x6, x7, x8, x9, x10, x11, x12, x13, x14, x15, x16]"
  by (simp add: length_Suc_conv eval_nat_numeral) blast

lemma drop_store:
  "\<forall>t\<in>set ts. t < k \<Longrightarrow> drop k (store a ts vs) = drop k a"
  by (induction a ts vs rule: store.induct) (simp_all add: drop_update_cancel)

lemma scan_summary_tail:
  "scan_summary line = Some (fmt, s) \<Longrightarrow> drop 10 s = replicate 7 0"
  by (auto simp: scan_summary_def split_beta Let_def drop_store chg_fields_size_def
      split: if_splits)

lemma scan_summary_tail_nth:
  assumes "scan_summary line = Some (fmt, s)"
  shows "s ! 10 = 0 \<and> s ! 11 = 0 \<and> s ! 15 = 0"
proof -
  have l: "length s = 17" by (rule length_scan_summary [OF assms])
  have "s ! (10 + i) = drop 10 s ! i" if "i < 7" for i
    using that l by simp
  from this [of 0] this [of 1] this [of 5] scan_summary_tail [OF assms]
  show ?thesis by simp
qed

lemma map_of_indexed:
  "distinct (map f xs) \<Longrightarrow> x \<in> set xs \<Longrightarrow> map_of (map (\<lambda>i. (f i, g i)) xs) (f x) = Some (g x)"
  by (induction xs) (auto simp: rev_image_eqI)

lemma charge_slot_values:
  assumes "i < n" and "n \<le> 17"
  shows "charge_slot (kChargeStats (charge_values tmp n)) i = Some (intValue (tmp ! i))"
proof -
  have "map ((!) charge_stats_fields) [0..<n] = take n charge_stats_fields"
    using assms by (simp add: map_nth_take length_charge_stats_fields)
  then have "distinct (map ((!) charge_stats_fields) [0..<n])"
    using distinct_charge_stats_fields by simp
  from map_of_indexed [OF this, of i "\<lambda>i. intValue (tmp ! i)"] assms show ?thesis
    by (simp add: charge_slot_def charge_values_def)
qed

lemma charge_slot_unpopulated:
  assumes "n \<le> i" and "i < 17" and "n \<le> 17"
  shows "charge_slot (kChargeStats (charge_values tmp n)) i = None"
proof -
  have m: "map fst (charge_values tmp n :: (ChargeStatsField \<times> 'a VendorAtomValue) list)
      = take n charge_stats_fields"
    using assms by (simp add: charge_values_def comp_def map_nth_take length_charge_stats_fields)
  have "charge_stats_fields ! i \<notin> set (take n charge_stats_fields)"
  proof
    assume "charge_stats_fields ! i \<in> set (take n charge_stats_fields)"
    then obtain j where j: "j < n" "take n charge_stats_fields ! j = charge_stats_fields ! i"
      using assms by (auto simp: in_set_conv_nth length_charge_stats_fields)
    then have "charge_stats_fields ! j = charge_stats_fields ! i" by simp
    with distinct_charge_stats_fields j(1) assms have "j = i"
      by (simp add: nth_eq_iff_index_eq length_charge_stats_fields)
    with j(1) assms show False by simp
  qed
  moreover have "fst ` set (charge_values tmp n :: (ChargeStatsField \<times> 'a VendorAtomValue) list)
      = set (take n charge_stats_fields)"
    using arg_cong [OF m, of set] by simp
  ultimately show ?thesis
    by (simp add: charge_slot_def map_of_eq_None_iff)
qed

lemma fields_size_included:
  "snd (merge_pca P wline_at pca_line (merge_wireless P wline_at wline_ac (s, 10))) =
     (if wlc_included wline_at wline_ac \<or> pca_included pca_line then 17 else 10)"
  by (simp add: merge_pca_def merge_wireless_def wlc_included_def pca_included_def
        split_beta Let_def chg_fields_size_def)

lemma cleared_pdo_scan: "sscanf_ints (c_str ''0'') ''D:%x,%x,%x,%x,%x,%x,%x'' = (0, [])"
  by code_simp

lemma report_tier_source_unreadable:
  "files w p = None \<Longrightarrow> report_tier_source P p (w, wcs) = (w, wcs, [])"
  by (simp add: report_tier_source_def checkContentsAndAck_def ReadFileToString_def)

lemma report_tier_source_locked:
  "files w p = Some t \<Longrightarrow> \<not> writable w p \<Longrightarrow> report_tier_source P p (w, wcs) = (w, wcs, [])"
  by (simp add: report_tier_source_def checkContentsAndAck_def ReadFileToString_def
        WriteStringToFile_def)

lemma report_tier_source_read:
  "files w p = Some t \<Longrightarrow> writable w p \<Longrightarrow>
     report_tier_source P p (w, wcs)
       = (w\<lparr>files := (files w)(p \<mapsto> ''0'')\<rparr>,
          fst (report_tier_lines P False [] (getlines t) wcs),
          snd (report_tier_lines P False [] (getlines t) wcs))"
  by (simp add: report_tier_source_def checkContentsAndAck_def ReadFileToString_def
        WriteStringToFile_def split_beta)

lemma is_tier_lines: "list_all is_tier (snd (report_tier_lines P hw wfc ls wcs))"
  using report_tier_lines_width [of P hw wfc ls wcs] by (simp add: list_all_iff)

lemma is_tier_sources: "list_all is_tier (snd (snd (report_tier_sources P st)))"
  using report_tier_sources_width [of P st] by (simp add: list_all_iff)

lemma checkAndReport_rejected:
  assumes "\<not> fst (shouldReportEvent (getTimeSecs inp) r)"
  shows "checkAndReport P inp path (r, w)
     = (r,
        (case files w path of
           None \<Rightarrow> w
         | Some file_contents \<Rightarrow>
             (case getline file_contents of
                None \<Rightarrow> w
              | Some _ \<Rightarrow> snd (WriteStringToFile ''0'' path w))),
        [])"
  using assms shouldReportEvent_rejected [OF assms]
  by (simp add: checkAndReport_def ReadFileToString_def split_beta split: option.split)

lemma checkAndReport_accepted:
  assumes "files w path = Some file_contents"
    and "getline file_contents = Some (line, ss)"
    and "fst (shouldReportEvent (getTimeSecs inp) r)"
  shows "snd (snd (checkAndReport P inp path (r, w)))
     = (case ReportChargeStats P (snd (WriteStringToFile ''0'' path w)) line
               (fst (wireless_lines_of inp)) (snd (wireless_lines_of inp)) (pca_line_of inp) of
          None \<Rightarrow> [] | Some e \<Rightarrow> [e])
       @ snd (report_tier_lines P (fst (CheckWirelessContentsAndAck inp))
                (snd (CheckWirelessContentsAndAck inp)) (getlines ss) (initial_tier_stats inp r))
       @ snd (snd (report_tier_sources P
           (snd (WriteStringToFile ''0'' path w),
            fst (report_tier_lines P (fst (CheckWirelessContentsAndAck inp))
                (snd (CheckWirelessContentsAndAck inp)) (getlines ss) (initial_tier_stats inp r)))))"
proof -
  have r1: "initial_tier_stats inp (snd (shouldReportEvent (getTimeSecs inp) r))
      = initial_tier_stats inp r"
    using shouldReportEvent_accepted [OF assms(3)] by (simp add: initial_tier_stats_def)
  from assms show ?thesis
    by (simp add: checkAndReport_def ReadFileToString_def split_beta Let_def r1)
qed

lemma gcharger_pdo_line_unreadable:
  "files w (kGChargerMetricsPath P) = None \<Longrightarrow> gcharger_pdo_line P w = None"
  by (simp add: gcharger_pdo_line_def ReadFileToString_def)



lemma ReportChargeStats_malformed:
  "scan_summary line = None \<Longrightarrow> ReportChargeStats P w line a b c = None"
  by (simp add: ReportChargeStats_def charge_stats_slots_def)


lemma cleared_at_scan: "sscanf_ints (c_str ''0'') ''A:%d'' = (0, [])"
  by code_simp

section \<open>The example inputs\<close>

lemma csi_line_scan: "sscanf_ints (c_str csi_line) CHG_STATS_FMT2 = (10, [3, 9000, 2000, 80, 4400, 90, 4450, 4000, 1, 2])"
  by code_simp

lemma example_lines_no_newline:
  "CHR 0x0A \<notin> set summary_line" "CHR 0x0A \<notin> set tier_line" "CHR 0x0A \<notin> set wlc_at_line"
  "CHR 0x0A \<notin> set wlc_cap_line" "CHR 0x0A \<notin> set pca_example_line" "CHR 0x0A \<notin> set pdo_line"
  "CHR 0x0A \<notin> set csi_line"
  by (simp_all add: summary_line_def tier_line_def wlc_at_line_def wlc_cap_line_def
        pca_example_line_def pdo_line_def csi_line_def)

lemma example_platform_simps:
  "kThermalChargeMetricsPath example_platform = ''thermal_stats''"
  "kGChargerMetricsPath example_platform = ''charge_stats''"
  "kGDualBattMetricsPath example_platform = ''dbatt_stats''"
  "ADAPTER_TYPE_USB_PD_PPS example_platform = 9"
  "TranslateSysModeToAtomValue example_platform m = m + 100"
  "CalculateWirelessChargeStats example_platform soc txt wcs
     = wcs\<lparr>tier_soc := soc, pout_min := 1, pout_avg := 2, pout_max := 3, of_freq := 4\<rparr>"
  "strtof example_platform = strtof_decimal"
  "static_cast_int example_platform = trunc_decimal"
  by (simp_all add: example_platform_def)

lemma wlc_at_line_nonempty: "wlc_at_line \<noteq> []"
  by (simp add: wlc_at_line_def)

lemma wlc_at_scan: "sscanf_ints (c_str wlc_at_line) ''A:%d'' = (1, [2])"
  by code_simp

lemma wlc_cap_scan:
  "sscanf_ints (c_str wlc_cap_line) ''D:%x,%x,%x,%x,%x, %x,%x'' = (7, [1, 2, 3, 4, 5, 6, 7])"
  by code_simp

lemma pca_example_scan:
  "sscanf_ints (c_str pca_example_line) ''D:%x,%x %x,%x,%x,%x,%x''
     = (7, [10, 11, 12, 13, 14, 15, 16])"
  by code_simp

lemma pdo_scan:
  "sscanf_ints (c_str pdo_line) ''D:%x,%x,%x,%x,%x,%x,%x''
     = (7, [161, 162, 163, 164, 165, 166, 167])"
  by code_simp

lemma summary_line_scans:
  "sscanf_ints (c_str summary_line) CHG_STATS_FMT2 = (7, [3, 9000, 2000, 80, 4400, 90, 4450])"
  "sscanf_ints (c_str summary_line) CHG_STATS_FMT1 = (7, [3, 9000, 2000, 80, 4400, 90, 4450])"
  "sscanf_ints (c_str summary_line) CHG_STATS_FMT0 = (7, [3, 9000, 2000, 80, 4400, 90, 4450])"
  by code_simp+

lemma summary_line_scan: "scan_summary summary_line
   = Some (BASE, [3, 9000, 2000, 80, 4400, 90, 4450, 0, 0, 0, 0, 0, 0, 0, 0, 0, 0])"
  by (simp add: scan_summary_def summary_line_scans chg_fields_size_def eval_nat_numeral)

lemma pdo_fs_line: "gcharger_pdo_line example_platform pdo_fs = Some pdo_line"
  by (simp add: gcharger_pdo_line_def pdo_fs_def ReadFileToString_def example_platform_simps
        getlines_text example_lines_no_newline cleared_pdo_scan pdo_scan)

lemma example_fs_no_pdo: "gcharger_pdo_line example_platform (example_fs l locked) = None"
  by (simp add: gcharger_pdo_line_def example_fs_def ReadFileToString_def example_platform_simps)

lemma pdo_line_values:
  "snd (sscanf_ints (c_str pdo_line) ''D:%x,%x,%x,%x,%x,%x,%x'')
     = [161, 162, 163, 164, 165, 166, 167]"
  by (simp add: pdo_scan)

lemma pdo_slots_extended:
  "charge_stats_slots example_platform pdo_fs summary_line
       wlc_at_line wlc_cap_line pca_example_line
     = Some ([102, 9000, 2000, 80, 4400, 90, 4450, 0, 0, 0, 1, 2, 14, 15, 16, 162, 167], 17)"
  by (simp add: charge_stats_slots_eq [OF summary_line_scan]
        merge_wireless_parsed [OF wlc_at_scan wlc_cap_scan] merge_pca_parsed [OF pca_example_scan]
        merge_gcharger_found [OF pdo_fs_line pdo_line_values] example_platform_simps
        wlc_at_line_nonempty)

lemma pdo_slots_short:
  "charge_stats_slots example_platform pdo_fs summary_line [] [] []
     = Some ([3, 9000, 2000, 80, 4400, 90, 4450, 0, 0, 0, 0, 0, 0, 0, 0, 162, 167], 10)"
  by (simp add: charge_stats_slots_eq [OF summary_line_scan]
        merge_wireless_absent merge_pca_absent merge_gcharger_found [OF pdo_fs_line pdo_line_values])

lemma example_lines_included:
  "wlc_included wlc_at_line wlc_cap_line" "pca_included pca_example_line"
  "\<not> wlc_included [] []" "\<not> pca_included []"
proof -
  have "pca_example_line \<noteq> []" by (simp add: pca_example_line_def)
  then show "pca_included pca_example_line"
    by (simp add: pca_included_def pca_example_scan)
qed (simp_all add: wlc_included_def pca_included_def wlc_at_scan wlc_cap_scan wlc_at_line_nonempty)

lemma tier_line_scan:
  "sscanf strtof_decimal (c_str tier_line)
     ''%d, %f,%d,%d, %d,%d,%d, %d,%d,%d, %d,%d,%d, %d,%d,%d''
   = (16, [ScInt 1, ScFloat (855, 1), ScInt 1200, ScInt 320, ScInt 10, ScInt 5, ScInt 2,
           ScInt 15, ScInt 18, ScInt 22, ScInt (- 200), ScInt (- 150), ScInt (- 100),
           ScInt 50, ScInt 55, ScInt 60])"
  by code_simp

lemma tier_line_report:
  "ReportVoltageTierStats example_platform (c_str tier_line) False wfc wcs
     = (wcs, Some example_tier_atom)"
  by (simp add: ReportVoltageTierStats_def example_platform_simps tier_line_scan
        vtier_fields_size_def example_tier_atom_def eval_nat_numeral)

lemma tier_line_report_wireless:
  "ReportVoltageTierStats example_platform (c_str tier_line) True wfc wcs
     = (wcs\<lparr>tier_soc := 85, pout_min := 1, pout_avg := 2, pout_max := 3, of_freq := 4\<rparr>,
        Some example_tier_atom_wireless)"
  by (simp add: ReportVoltageTierStats_def example_platform_simps tier_line_scan
        vtier_fields_size_def example_tier_atom_wireless_def trunc_decimal_def eval_nat_numeral)

lemma example_fs_simps:
  "files (example_fs l locked) ''primary'' = Some (text_of_lines [l, tier_line])"
  "files (example_fs l locked) ''thermal_stats'' = Some (text_of_lines [tier_line])"
  "files (example_fs l locked) ''charge_stats'' = None"
  "files (example_fs l locked) ''dbatt_stats'' = None"
  "writable (example_fs l locked) p = (p \<notin> set locked)"
  by (simp_all add: example_fs_def)

lemma summary_line_report:
  "gcharger_pdo_line example_platform w = None \<Longrightarrow>
   ReportChargeStats example_platform w summary_line [] [] [] = Some example_session_atom"
  by (simp add: ReportChargeStats_def charge_stats_slots_eq [OF summary_line_scan]
        merge_wireless_absent merge_pca_absent merge_gcharger_none example_session_atom_def)

lemma wireless_session_report:
  "gcharger_pdo_line example_platform w = None \<Longrightarrow>
   ReportChargeStats example_platform w summary_line wlc_at_line wlc_cap_line []
     = Some (kChargeStats
         (charge_values [102, 9000, 2000, 80, 4400, 90, 4450, 0, 0, 0, 1, 2, 3, 4, 5, 6, 7] 17))"
  by (simp add: ReportChargeStats_def charge_stats_slots_eq [OF summary_line_scan]
        merge_wireless_parsed [OF wlc_at_scan wlc_cap_scan] merge_pca_absent merge_gcharger_none
        example_platform_simps)

lemma junk_line_scans:
  "sscanf_ints (c_str junk_line) CHG_STATS_FMT2 = (0, [])"
  "sscanf_ints (c_str junk_line) CHG_STATS_FMT1 = (0, [])"
  "sscanf_ints (c_str junk_line) CHG_STATS_FMT0 = (0, [])"
  by code_simp+

lemma junk_line_scan: "scan_summary junk_line = None"
  by (simp add: scan_summary_def junk_line_scans)


lemma idle_throttle:
  "shouldReportEvent 100 idle_reporter = (True, idle_reporter\<lparr>log_event_time_secs := 100\<rparr>)"
  by (simp add: shouldReportEvent_def idle_reporter_def)

lemma example_inputs:
  "getTimeSecs (plain_input now) = now"
  "CheckWirelessContentsAndAck (plain_input now) = (False, [])"
  "pca_line_of (plain_input now) = []"
  "wireless_lines_of (plain_input now) = ([], [])"
  "getTimeSecs (wireless_input now) = now"
  "CheckWirelessContentsAndAck (wireless_input now)
     = (True, text_of_lines [wlc_at_line, wlc_cap_line])"
  "pca_line_of (wireless_input now) = []"
  "wireless_lines_of (wireless_input now) = (wlc_at_line, wlc_cap_line)"
  "getTimeSecs blank_first_input = 100"
  "CheckWirelessContentsAndAck blank_first_input = (True, text_of_lines [[], wlc_cap_line])"
  "pca_line_of blank_first_input = pca_example_line"
  "wireless_lines_of blank_first_input = ([], wlc_cap_line)"
  by (simp_all add: plain_input_def wireless_input_def blank_first_input_def pca_line_of_def
        wireless_lines_of_def getline_text example_lines_no_newline)

lemma initial_tier_stats_examples:
  "initial_tier_stats (plain_input now) r = wireless_charge_stats r"
  "initial_tier_stats (wireless_input now) r = (wireless_charge_stats r)\<lparr>tier_soc := 0\<rparr>"
  by (simp_all add: initial_tier_stats_def example_inputs)

lemmas drain_eval =
  example_fs_simps WriteStringToFile_def getline_text getlines_text example_lines_no_newline
  example_platform_simps example_inputs initial_tier_stats_examples
  tier_line_report tier_line_report_wireless report_tier_sources_def
  report_tier_source_unreadable report_tier_source_locked report_tier_source_read
  summary_line_report wireless_session_report gcharger_pdo_line_unreadable
  junk_line_scan ReportChargeStats_malformed getlines_Nil

lemma junk_line_no_newline: "CHR 0x0A \<notin> set junk_line"
  by (simp add: junk_line_def)

lemma pca_session_report:
  "gcharger_pdo_line example_platform w = None \<Longrightarrow>
   ReportChargeStats example_platform w summary_line [] wline_ac pca_example_line
     = Some (kChargeStats
         (charge_values [9, 9000, 2000, 80, 4400, 90, 4450, 0, 0, 0, 10, 11, 14, 15, 16, 12, 13]
            17))"
  by (simp add: ReportChargeStats_def charge_stats_slots_eq [OF summary_line_scan]
        merge_wireless_absent merge_pca_parsed [OF pca_example_scan] merge_gcharger_none
        example_platform_simps)

section \<open>The claims\<close>

subsection \<open>C1: The throttle window\<close>

text \<open>
  C1 (the claim as stated fails on the code). After an attempt accepted at boot time
  \<open>100\<close>, the attempt at \<open>100 + 15\<close> is rejected: the source accepts when
  \<open>log_event_time_secs_ + DURATION_FILTER_SECS < current_time\<close>, a strict comparison.
\<close>

theorem C1_accept_at_15_counterexample:
  "fst (shouldReportEvent 100 idle_reporter)
   \<and> \<not> fst (shouldReportEvent (100 + 15) (snd (shouldReportEvent 100 idle_reporter)))"
  by (simp add: shouldReportEvent_def idle_reporter_def DURATION_FILTER_SECS_def word_sless_alt)

text \<open>
  C1 (amended). After an attempt accepted at boot time \<open>T\<close>, an attempt at \<open>T + d\<close>
  is accepted exactly when \<open>d > 15\<close>: the attempts at \<open>T + 14\<close> and at \<open>T + 15\<close> are
  rejected, the one at \<open>T + 16\<close> is the first accepted. An accepted attempt moves the
  anchor to its own time, and a rejected attempt never changes the stored anchor. The
  times are boot times: positive, and far enough from the end of \<open>int64_t\<close> for the
  additions not to overflow.
\<close>

theorem C1_throttle_window:
  assumes acc: "fst (shouldReportEvent T r)"
    and pos: "0 < sint T"
    and no_ovf: "sint T + 15 < 2 ^ 63" "sint T + int d < 2 ^ 63"
  shows "(fst (shouldReportEvent (T + word_of_nat d) (snd (shouldReportEvent T r))) \<longleftrightarrow> 15 < d)
    \<and> log_event_time_secs (snd (shouldReportEvent T r)) = T
    \<and> (\<forall>t r'. \<not> fst (shouldReportEvent t r') \<longrightarrow> snd (shouldReportEvent t r') = r')"
proof -
  have st: "snd (shouldReportEvent T r) = r\<lparr>log_event_time_secs := T\<rparr>" and T0: "T \<noteq> 0"
    using shouldReportEvent_accepted [OF acc] by simp_all
  have s15: "sint (T + 15) = sint T + 15"
    using sint_add_no_overflow [of T 15] pos no_ovf by simp
  have sd: "sint (T + word_of_nat d) = sint T + int d"
    using sint_add_no_overflow [of T d] pos no_ovf by simp
  have nz: "T + word_of_nat d \<noteq> 0"
  proof
    assume "T + word_of_nat d = 0"
    then have "sint (T + word_of_nat d) = 0" by simp
    with sd pos show False by simp
  qed
  have "fst (shouldReportEvent (T + word_of_nat d) (r\<lparr>log_event_time_secs := T\<rparr>)) \<longleftrightarrow> 15 < d"
    using T0 nz s15 sd by (simp add: shouldReportEvent_def DURATION_FILTER_SECS_def word_sless_alt)
  then show ?thesis
    using st shouldReportEvent_rejected by simp
qed

text \<open>
  C1, on the example: after the session accepted at 100, the attempts at 114 and 115
  are rejected and the attempt at 116 is accepted.
\<close>

theorem C1_throttle_window_witness:
  "fst (shouldReportEvent 100 idle_reporter)
   \<and> \<not> fst (shouldReportEvent 114 (snd (shouldReportEvent 100 idle_reporter)))
   \<and> \<not> fst (shouldReportEvent 115 (snd (shouldReportEvent 100 idle_reporter)))
   \<and> fst (shouldReportEvent 116 (snd (shouldReportEvent 100 idle_reporter)))"
proof -
  have a: "fst (shouldReportEvent 100 idle_reporter)"
    by (simp add: shouldReportEvent_def idle_reporter_def)
  have p: "0 < sint (100 :: int64)" by simp
  have o: "sint (100 :: int64) + 15 < 2 ^ 63" by simp
  have "sint (100 :: int64) + int 14 < 2 ^ 63" by simp
  from C1_throttle_window [OF a p o this]
  have r14: "\<not> fst (shouldReportEvent 114 (snd (shouldReportEvent 100 idle_reporter)))" by simp
  have "sint (100 :: int64) + int 15 < 2 ^ 63" by simp
  from C1_throttle_window [OF a p o this]
  have r15: "\<not> fst (shouldReportEvent 115 (snd (shouldReportEvent 100 idle_reporter)))" by simp
  have "sint (100 :: int64) + int 16 < 2 ^ 63" by simp
  from C1_throttle_window [OF a p o this]
  have r16: "fst (shouldReportEvent 116 (snd (shouldReportEvent 100 idle_reporter)))" by simp
  from a r14 r15 r16 show ?thesis by simp
qed

subsection \<open>C2: A rejected session ends the drain\<close>

text \<open>
  C2 (the claim as stated fails on the code). The primary log holds a summary line and
  a well-formed tier line, the thermal log a well-formed tier line. With the boot clock
  at zero the drain reports nothing at all; with the clock at 100 the same drain
  reports the session record and both tier samples.
\<close>

theorem C2_tiers_gated_counterexample:
  "getTimeSecs (plain_input 0) = 0
   \<and> files (example_fs summary_line []) ''primary'' = Some (text_of_lines [summary_line, tier_line])
   \<and> files (example_fs summary_line []) ''thermal_stats'' = Some (text_of_lines [tier_line])
   \<and> snd (snd (checkAndReport example_platform (plain_input 0) ''primary''
                  (idle_reporter, example_fs summary_line []))) = []
   \<and> snd (snd (checkAndReport example_platform (plain_input 100) ''primary''
                  (idle_reporter, example_fs summary_line [])))
       = [example_session_atom, example_tier_atom, example_tier_atom]"
proof -
  have rej: "\<not> fst (shouldReportEvent (getTimeSecs (plain_input 0)) idle_reporter)"
    by (simp add: example_inputs shouldReportEvent_zero)
  have acc: "fst (shouldReportEvent (getTimeSecs (plain_input 100)) idle_reporter)"
    by (simp add: example_inputs idle_throttle)
  have f: "files (example_fs summary_line []) ''primary''
      = Some (text_of_lines [summary_line, tier_line])"
    by (simp add: example_fs_simps)
  have g: "getline (text_of_lines [summary_line, tier_line])
      = Some (summary_line, text_of_lines [tier_line])"
    by (simp add: getline_text example_lines_no_newline)
  show ?thesis
    by (simp add: checkAndReport_rejected [OF rej] checkAndReport_accepted [OF f g acc] drain_eval)
qed

text \<open>
  C2 (amended). When the throttle rejects the session, and so whenever the boot clock
  reads zero, the drain ends there: it hands no atom to the stats service, neither the
  session record nor any tier sample of the primary log or of an auxiliary source. The
  reporter is unchanged, and the file system is changed at most by the clear of the
  primary source: the thermal, generic-charger and dual-battery sources are neither read
  nor cleared.
\<close>

theorem C2_rejected_drain_emits_nothing:
  assumes "getTimeSecs inp = 0 \<or> \<not> fst (shouldReportEvent (getTimeSecs inp) r)"
  shows "checkAndReport P inp path (r, w)
     = (r,
        (case files w path of
           None \<Rightarrow> w
         | Some file_contents \<Rightarrow>
             (case getline file_contents of
                None \<Rightarrow> w
              | Some _ \<Rightarrow> snd (WriteStringToFile ''0'' path w))),
        [])"
proof -
  from assms have "\<not> fst (shouldReportEvent (getTimeSecs inp) r)"
    by (auto simp: shouldReportEvent_zero)
  then show ?thesis by (rule checkAndReport_rejected)
qed

text \<open>
  C2, on the example: with the clock at zero the drain clears the primary log and
  reports nothing.
\<close>

theorem C2_rejected_drain_emits_nothing_witness:
  "getTimeSecs (plain_input 0) = 0
   \<and> checkAndReport example_platform (plain_input 0) ''primary''
        (idle_reporter, example_fs summary_line [])
     = (idle_reporter,
        (example_fs summary_line [])
          \<lparr>files := (files (example_fs summary_line []))(''primary'' \<mapsto> ''0'')\<rparr>,
        [])"
proof -
  have z: "getTimeSecs (plain_input 0) = 0" by (simp add: example_inputs)
  then have "getTimeSecs (plain_input 0) = 0
      \<or> \<not> fst (shouldReportEvent (getTimeSecs (plain_input 0)) idle_reporter)"
    by simp
  from C2_rejected_drain_emits_nothing [OF this, of example_platform "''primary''"
      "example_fs summary_line []"] z
  show ?thesis by (simp add: drain_eval)
qed

subsection \<open>C3: A malformed summary line\<close>

text \<open>
  C3 (the claim as stated fails on the code). The first line of the primary log is
  \<open>junk\<close>, which matches no summary format; the drain still reports the tier sample
  of the next line and the one of the thermal log.
\<close>

theorem C3_tiers_after_malformed_summary_counterexample:
  "scan_summary junk_line = None
   \<and> files (example_fs junk_line []) ''primary'' = Some (text_of_lines [junk_line, tier_line])
   \<and> snd (snd (checkAndReport example_platform (plain_input 100) ''primary''
                  (idle_reporter, example_fs junk_line [])))
       = [example_tier_atom, example_tier_atom]"
proof -
  have acc: "fst (shouldReportEvent (getTimeSecs (plain_input 100)) idle_reporter)"
    by (simp add: example_inputs idle_throttle)
  have f: "files (example_fs junk_line []) ''primary''
      = Some (text_of_lines [junk_line, tier_line])"
    by (simp add: example_fs_simps)
  have g: "getline (text_of_lines [junk_line, tier_line])
      = Some (junk_line, text_of_lines [tier_line])"
    by (simp add: getline_text junk_line_no_newline)
  show ?thesis
    by (simp add: checkAndReport_accepted [OF f g acc] drain_eval)
qed

text \<open>
  C3 (amended). When the throttle accepts and the summary line matches none of the
  three formats, \<open>ReportChargeStats\<close> returns without reporting anything: no session
  record, whole or partial. The drain goes on all the same: it reports the tier samples
  of the remaining lines of the primary log and then those of the thermal,
  generic-charger and dual-battery sources, and nothing else.
\<close>

theorem C3_malformed_summary_keeps_tiers:
  assumes "files w path = Some file_contents"
    and "getline file_contents = Some (line, ss)"
    and "fst (shouldReportEvent (getTimeSecs inp) r)"
    and "scan_summary line = None"
  shows "ReportChargeStats P w' line wline_at wline_ac pca_line = None
    \<and> snd (snd (checkAndReport P inp path (r, w)))
        = snd (report_tier_lines P (fst (CheckWirelessContentsAndAck inp))
                 (snd (CheckWirelessContentsAndAck inp)) (getlines ss) (initial_tier_stats inp r))
          @ snd (snd (report_tier_sources P
              (snd (WriteStringToFile ''0'' path w),
               fst (report_tier_lines P (fst (CheckWirelessContentsAndAck inp))
                 (snd (CheckWirelessContentsAndAck inp)) (getlines ss) (initial_tier_stats inp r)))))
    \<and> list_all is_tier (snd (snd (checkAndReport P inp path (r, w))))"
proof -
  have none: "\<And>w' a b c. ReportChargeStats P w' line a b c = None"
    by (rule ReportChargeStats_malformed [OF assms(4)])
  have ev: "snd (snd (checkAndReport P inp path (r, w)))
        = snd (report_tier_lines P (fst (CheckWirelessContentsAndAck inp))
                 (snd (CheckWirelessContentsAndAck inp)) (getlines ss) (initial_tier_stats inp r))
          @ snd (snd (report_tier_sources P
              (snd (WriteStringToFile ''0'' path w),
               fst (report_tier_lines P (fst (CheckWirelessContentsAndAck inp))
                 (snd (CheckWirelessContentsAndAck inp)) (getlines ss) (initial_tier_stats inp r)))))"
    by (simp add: checkAndReport_accepted [OF assms(1-3)] none)
  have "list_all is_tier (snd (snd (checkAndReport P inp path (r, w))))"
    unfolding ev by (simp add: is_tier_lines is_tier_sources)
  with none ev show ?thesis by simp
qed

text \<open>
  C3, on the example: the first line \<open>junk\<close> yields no session record, and the tier
  samples of the primary and the thermal log are reported.
\<close>

theorem C3_malformed_summary_keeps_tiers_witness:
  "scan_summary junk_line = None
   \<and> snd (snd (checkAndReport example_platform (plain_input 100) ''primary''
                  (idle_reporter, example_fs junk_line [])))
       = [example_tier_atom, example_tier_atom]"
proof -
  have acc: "fst (shouldReportEvent (getTimeSecs (plain_input 100)) idle_reporter)"
    by (simp add: example_inputs idle_throttle)
  have f: "files (example_fs junk_line []) ''primary''
      = Some (text_of_lines [junk_line, tier_line])"
    by (simp add: example_fs_simps)
  have g: "getline (text_of_lines [junk_line, tier_line])
      = Some (junk_line, text_of_lines [tier_line])"
    by (simp add: getline_text junk_line_no_newline)
  from C3_malformed_summary_keeps_tiers [OF f g acc junk_line_scan, of example_platform]
  show ?thesis by (simp add: drain_eval)
qed

subsection \<open>C4: A failed clear\<close>




subsection \<open>C5: Merging the wireless and PCA lines\<close>

text \<open>
  C5 (the claim as stated fails on the code). Both wireless lines parse, there is no
  PCA line, and the generic charger's file holds a PDO line: slot 15 of the record
  reported is \<open>0xa2 = 162\<close>, the second value of the PDO line, not the sixth value
  \<open>6\<close> of the wireless capability line.
\<close>

theorem C5_gcharger_counterexample:
  "sscanf_ints (c_str wlc_at_line) ''A:%d'' = (1, [2])
   \<and> sscanf_ints (c_str wlc_cap_line) ''D:%x,%x,%x,%x,%x, %x,%x'' = (7, [1, 2, 3, 4, 5, 6, 7])
   \<and> ReportChargeStats example_platform pdo_fs summary_line wlc_at_line wlc_cap_line []
       = Some (kChargeStats
           (charge_values [102, 9000, 2000, 80, 4400, 90, 4450, 0, 0, 0, 1, 2, 3, 4, 5, 162, 167] 17))
   \<and> charge_slot (kChargeStats
           (charge_values [102, 9000, 2000, 80, 4400, 90, 4450, 0, 0, 0, 1, 2, 3, 4, 5, 162, 167] 17
              :: (ChargeStatsField \<times> (int \<times> nat) VendorAtomValue) list)) 15
       = Some (intValue 162)"
proof -
  have pdo: "snd (sscanf_ints (c_str pdo_line) ''D:%x,%x,%x,%x,%x,%x,%x'')
      = [161, 162, 163, 164, 165, 166, 167]"
    by (simp add: pdo_scan)
  have "charge_stats_slots example_platform pdo_fs summary_line wlc_at_line wlc_cap_line []
      = Some ([102, 9000, 2000, 80, 4400, 90, 4450, 0, 0, 0, 1, 2, 3, 4, 5, 162, 167], 17)"
    by (simp add: charge_stats_slots_eq [OF summary_line_scan]
          merge_wireless_parsed [OF wlc_at_scan wlc_cap_scan] merge_pca_absent
          merge_gcharger_found [OF pdo_fs_line pdo] example_platform_simps)
  then show ?thesis
    by (simp add: ReportChargeStats_def wlc_at_scan wlc_cap_scan charge_slot_values)
qed

text \<open>
  C5 (amended). With a summary line resolved to the slots \<open>s\<close>: when both wireless
  lines parse and there is no PCA line, slot 0 is the translated adapter type and
  slots 10 to 16 are the seven values of the wireless capability line; when the PCA
  line parses and there is no wireless line, slot 0 is the PPS sentinel, slots 10 and
  11 are the two PCA adapter capabilities and slots 15, 16, 12, 13, 14 the five PCA
  receiver states; when all three lines parse, slot 0 is the translated adapter type,
  slots 10, 11 and 15 come from the wireless capability line and slots 12, 13, 14 and
  16 from the PCA line. In each case 17 slots are populated, and the generic charger
  comes last: when its file has a PDO line, slots 15 and 16 are taken from that line
  instead; when it has none, the slots stay as merged.
\<close>

theorem C5_side_channel_merge:
  assumes s: "scan_summary line = Some (fmt, s)"
  shows
   "(sscanf_ints (c_str wline_at) ''A:%d'' = (1, [a])
       \<and> sscanf_ints (c_str wline_ac) ''D:%x,%x,%x,%x,%x, %x,%x'' = (7, [ca, cb, cc, cd, ce, ra, rb])
     \<longrightarrow> charge_stats_slots P w line wline_at wline_ac []
           = Some (merge_gcharger P w
                     (s[0 := TranslateSysModeToAtomValue P a, 10 := ca, 11 := cb, 12 := cc,
                        13 := cd, 14 := ce, 15 := ra, 16 := rb]), 17))
    \<and> (sscanf_ints (c_str pca_line) ''D:%x,%x %x,%x,%x,%x,%x'' = (7, [aa, ab, pa, pb, pc, pd, pe])
     \<longrightarrow> charge_stats_slots P w line [] wline_ac pca_line
           = Some (merge_gcharger P w
                     (s[0 := ADAPTER_TYPE_USB_PD_PPS P, 10 := aa, 11 := ab, 12 := pc,
                        13 := pd, 14 := pe, 15 := pa, 16 := pb]), 17))
    \<and> (sscanf_ints (c_str wline_at) ''A:%d'' = (1, [a])
       \<and> sscanf_ints (c_str wline_ac) ''D:%x,%x,%x,%x,%x, %x,%x'' = (7, [ca, cb, cc, cd, ce, ra, rb])
       \<and> sscanf_ints (c_str pca_line) ''D:%x,%x %x,%x,%x,%x,%x'' = (7, [aa, ab, pa, pb, pc, pd, pe])
     \<longrightarrow> charge_stats_slots P w line wline_at wline_ac pca_line
           = Some (merge_gcharger P w
                     (s[0 := TranslateSysModeToAtomValue P a, 10 := ca, 11 := cb, 12 := pc,
                        13 := pd, 14 := pe, 15 := ra, 16 := pb]), 17))
    \<and> (gcharger_pdo_line P w = None \<longrightarrow> merge_gcharger P w t = t)
    \<and> (gcharger_pdo_line P w = Some l
       \<and> snd (sscanf_ints (c_str l) ''D:%x,%x,%x,%x,%x,%x,%x'') = [ga, gb, gc, gd, ge, gf, gg]
     \<longrightarrow> merge_gcharger P w t = t[15 := gb, 16 := gg])"
proof -
  from length_17 [OF length_scan_summary [OF s]]
  obtain x0 x1 x2 x3 x4 x5 x6 x7 x8 x9 x10 x11 x12 x13 x14 x15 x16
    where xs: "s = [x0, x1, x2, x3, x4, x5, x6, x7, x8, x9, x10, x11, x12, x13, x14, x15, x16]"
    by blast
  have wl: "sscanf_ints (c_str wline_at) ''A:%d'' = (1, [a]) \<Longrightarrow> wline_at \<noteq> []"
    using scan_A_empty by (auto simp: c_str_Nil)
  show ?thesis
  proof (intro conjI impI)
    assume "sscanf_ints (c_str wline_at) ''A:%d'' = (1, [a])
       \<and> sscanf_ints (c_str wline_ac) ''D:%x,%x,%x,%x,%x, %x,%x'' = (7, [ca, cb, cc, cd, ce, ra, rb])"
    then show "charge_stats_slots P w line wline_at wline_ac []
           = Some (merge_gcharger P w
                     (s[0 := TranslateSysModeToAtomValue P a, 10 := ca, 11 := cb, 12 := cc,
                        13 := cd, 14 := ce, 15 := ra, 16 := rb]), 17)"
      by (simp add: charge_stats_slots_eq [OF s] merge_wireless_parsed merge_pca_absent)
  next
    assume "sscanf_ints (c_str pca_line) ''D:%x,%x %x,%x,%x,%x,%x'' = (7, [aa, ab, pa, pb, pc, pd, pe])"
    then show "charge_stats_slots P w line [] wline_ac pca_line
           = Some (merge_gcharger P w
                     (s[0 := ADAPTER_TYPE_USB_PD_PPS P, 10 := aa, 11 := ab, 12 := pc,
                        13 := pd, 14 := pe, 15 := pa, 16 := pb]), 17)"
      by (simp add: charge_stats_slots_eq [OF s] merge_wireless_absent merge_pca_parsed xs)
  next
    assume a: "sscanf_ints (c_str wline_at) ''A:%d'' = (1, [a])
       \<and> sscanf_ints (c_str wline_ac) ''D:%x,%x,%x,%x,%x, %x,%x'' = (7, [ca, cb, cc, cd, ce, ra, rb])
       \<and> sscanf_ints (c_str pca_line) ''D:%x,%x %x,%x,%x,%x,%x'' = (7, [aa, ab, pa, pb, pc, pd, pe])"
    with wl have "wline_at \<noteq> []" by simp
    with a show "charge_stats_slots P w line wline_at wline_ac pca_line
           = Some (merge_gcharger P w
                     (s[0 := TranslateSysModeToAtomValue P a, 10 := ca, 11 := cb, 12 := pc,
                        13 := pd, 14 := pe, 15 := ra, 16 := pb]), 17)"
      by (simp add: charge_stats_slots_eq [OF s] merge_wireless_parsed merge_pca_parsed xs)
  next
    assume "gcharger_pdo_line P w = None"
    then show "merge_gcharger P w t = t" by (rule merge_gcharger_none)
  next
    assume "gcharger_pdo_line P w = Some l
       \<and> snd (sscanf_ints (c_str l) ''D:%x,%x,%x,%x,%x,%x,%x'') = [ga, gb, gc, gd, ge, gf, gg]"
    then show "merge_gcharger P w t = t[15 := gb, 16 := gg]"
      by (simp add: merge_gcharger_found)
  qed
qed

text \<open>
  C5, on the example lines: wireless alone, PCA alone, both, and both with a PDO line
  of the generic charger.
\<close>

theorem C5_side_channel_merge_witness:
  "charge_stats_slots example_platform (example_fs summary_line []) summary_line
       wlc_at_line wlc_cap_line []
     = Some ([102, 9000, 2000, 80, 4400, 90, 4450, 0, 0, 0, 1, 2, 3, 4, 5, 6, 7], 17)
   \<and> charge_stats_slots example_platform (example_fs summary_line []) summary_line
       [] wlc_cap_line pca_example_line
     = Some ([9, 9000, 2000, 80, 4400, 90, 4450, 0, 0, 0, 10, 11, 14, 15, 16, 12, 13], 17)
   \<and> charge_stats_slots example_platform (example_fs summary_line []) summary_line
       wlc_at_line wlc_cap_line pca_example_line
     = Some ([102, 9000, 2000, 80, 4400, 90, 4450, 0, 0, 0, 1, 2, 14, 15, 16, 6, 13], 17)
   \<and> charge_stats_slots example_platform pdo_fs summary_line
       wlc_at_line wlc_cap_line pca_example_line
     = Some ([102, 9000, 2000, 80, 4400, 90, 4450, 0, 0, 0, 1, 2, 14, 15, 16, 162, 167], 17)"
proof -
  have pdo: "snd (sscanf_ints (c_str pdo_line) ''D:%x,%x,%x,%x,%x,%x,%x'')
      = [161, 162, 163, 164, 165, 166, 167]"
    by (simp add: pdo_scan)
  note inst = C5_side_channel_merge [OF summary_line_scan,
      where P = example_platform
        and wline_at = wlc_at_line and wline_ac = wlc_cap_line and pca_line = pca_example_line
        and a = 2 and ca = 1 and cb = 2 and cc = 3 and cd = 4 and ce = 5 and ra = 6 and rb = 7
        and aa = 10 and ab = 11 and pa = 12 and pb = 13 and pc = 14 and pd = 15 and pe = 16
        and l = pdo_line and ga = 161 and gb = 162 and gc = 163 and gd = 164 and ge = 165
        and gf = 166 and gg = 167]
  from inst [where w = "example_fs summary_line []"
        and t = "[102, 9000, 2000, 80, 4400, 90, 4450, 0, 0, 0, 1, 2, 3, 4, 5, 6, 7]"]
  have c1: "charge_stats_slots example_platform (example_fs summary_line []) summary_line
       wlc_at_line wlc_cap_line []
     = Some ([102, 9000, 2000, 80, 4400, 90, 4450, 0, 0, 0, 1, 2, 3, 4, 5, 6, 7], 17)"
    by (simp add: wlc_at_scan wlc_cap_scan example_fs_no_pdo example_platform_simps)
  from inst [where w = "example_fs summary_line []"
        and t = "[9, 9000, 2000, 80, 4400, 90, 4450, 0, 0, 0, 10, 11, 14, 15, 16, 12, 13]"]
  have c2: "charge_stats_slots example_platform (example_fs summary_line []) summary_line
       [] wlc_cap_line pca_example_line
     = Some ([9, 9000, 2000, 80, 4400, 90, 4450, 0, 0, 0, 10, 11, 14, 15, 16, 12, 13], 17)"
    by (simp add: pca_example_scan example_fs_no_pdo example_platform_simps)
  from inst [where w = "example_fs summary_line []"
        and t = "[102, 9000, 2000, 80, 4400, 90, 4450, 0, 0, 0, 1, 2, 14, 15, 16, 6, 13]"]
  have c3: "charge_stats_slots example_platform (example_fs summary_line []) summary_line
       wlc_at_line wlc_cap_line pca_example_line
     = Some ([102, 9000, 2000, 80, 4400, 90, 4450, 0, 0, 0, 1, 2, 14, 15, 16, 6, 13], 17)"
    by (simp add: wlc_at_scan wlc_cap_scan pca_example_scan example_fs_no_pdo
          example_platform_simps)
  from inst [where w = pdo_fs
        and t = "[102, 9000, 2000, 80, 4400, 90, 4450, 0, 0, 0, 1, 2, 14, 15, 16, 6, 13]"]
  have c4: "charge_stats_slots example_platform pdo_fs summary_line
       wlc_at_line wlc_cap_line pca_example_line
     = Some ([102, 9000, 2000, 80, 4400, 90, 4450, 0, 0, 0, 1, 2, 14, 15, 16, 162, 167], 17)"
    by (simp add: wlc_at_scan wlc_cap_scan pca_example_scan pdo pdo_fs_line
          example_platform_simps)
  from c1 c2 c3 c4 show ?thesis by simp
qed

subsection \<open>C6: The generic charger comes last\<close>

text \<open>
  C6 (the claim as stated fails on the code). The summary line resolves, there is
  neither a wireless nor a PCA line, and the generic charger's file holds a line that
  converts seven values under the PDO format, the second \<open>0xa2 = 162\<close> and the seventh
  \<open>0xa7 = 167\<close>. Lines 151 and 152 store the two values in \<open>tmp[15]\<close> and \<open>tmp[16]\<close>,
  but \<open>fields_size\<close> is still 10 and the loop of lines 158 to 161 copies only
  \<open>tmp[0]\<close> to \<open>tmp[9]\<close>: the record reported has ten populated slots, and slots 15 and
  16 are not among them.
\<close>

theorem C6_short_record_counterexample:
  "gcharger_pdo_line example_platform pdo_fs = Some pdo_line
   \<and> sscanf_ints (c_str pdo_line) ''D:%x,%x,%x,%x,%x,%x,%x''
       = (7, [161, 162, 163, 164, 165, 166, 167])
   \<and> ReportChargeStats example_platform pdo_fs summary_line [] [] []
       = Some (kChargeStats
           (charge_values [3, 9000, 2000, 80, 4400, 90, 4450, 0, 0, 0, 0, 0, 0, 0, 0, 162, 167] 10))
   \<and> populated_slots (kChargeStats
           (charge_values [3, 9000, 2000, 80, 4400, 90, 4450, 0, 0, 0, 0, 0, 0, 0, 0, 162, 167] 10
              :: (ChargeStatsField \<times> (int \<times> nat) VendorAtomValue) list)) = 10
   \<and> charge_slot (kChargeStats
           (charge_values [3, 9000, 2000, 80, 4400, 90, 4450, 0, 0, 0, 0, 0, 0, 0, 0, 162, 167] 10
              :: (ChargeStatsField \<times> (int \<times> nat) VendorAtomValue) list)) 15 = None
   \<and> charge_slot (kChargeStats
           (charge_values [3, 9000, 2000, 80, 4400, 90, 4450, 0, 0, 0, 0, 0, 0, 0, 0, 162, 167] 10
              :: (ChargeStatsField \<times> (int \<times> nat) VendorAtomValue) list)) 16 = None"
  by (simp add: pdo_fs_line pdo_scan ReportChargeStats_def pdo_slots_short populated_charge
        charge_slot_unpopulated)

text \<open>
  C6 (amended). When the summary line resolves and the generic charger's file has a
  line that converts seven values under the PDO format, a session record is reported,
  and the first such line decides its slots 15 and 16 as follows. If the wireless lines
  or the PCA line have raised the record to 17 slots, slot 15 is the second value of
  that line (APDO) and slot 16 its seventh (PDO), whatever the wireless and PCA lines
  stored there before. If neither has, the record has 10 populated slots and carries
  neither value.
\<close>

theorem C6_gcharger_override:
  fixes P :: "'f platform"
  assumes s: "scan_summary line = Some (fmt, s)"
    and l: "gcharger_pdo_line P w = Some l"
    and g: "snd (sscanf_ints (c_str l) ''D:%x,%x,%x,%x,%x,%x,%x'') = [ga, gb, gc, gd, ge, gf, gg]"
  shows "\<exists>e. ReportChargeStats P w line wline_at wline_ac pca_line = Some e
           \<and> (wlc_included wline_at wline_ac \<or> pca_included pca_line \<longrightarrow>
                 populated_slots e = 17
               \<and> charge_slot e 15 = Some (intValue gb)
               \<and> charge_slot e 16 = Some (intValue gg))
           \<and> (\<not> wlc_included wline_at wline_ac \<and> \<not> pca_included pca_line \<longrightarrow>
                 populated_slots e = 10
               \<and> charge_slot e 15 = None
               \<and> charge_slot e 16 = None)"
proof -
  let ?m = "merge_pca P wline_at pca_line (merge_wireless P wline_at wline_ac (s, 10))"
  let ?t = "(fst ?m)[15 := gb, 16 := gg]"
  let ?e = "kChargeStats (charge_values ?t (snd ?m)) :: 'f VendorAtom"
  have len: "length (fst ?m) = 17"
    using merge_pca_length [of P wline_at pca_line "fst (merge_wireless P wline_at wline_ac (s, 10))"
            "snd (merge_wireless P wline_at wline_ac (s, 10))"]
      merge_wireless_length [of P wline_at wline_ac s 10] length_scan_summary [OF s]
    by simp
  have slots: "charge_stats_slots P w line wline_at wline_ac pca_line = Some (?t, snd ?m)"
    by (simp add: charge_stats_slots_eq [OF s] merge_gcharger_found [OF l g])
  have report: "ReportChargeStats P w line wline_at wline_ac pca_line = Some ?e"
    by (simp add: ReportChargeStats_def slots)
  have size: "snd ?m = (if wlc_included wline_at wline_ac \<or> pca_included pca_line then 17 else 10)"
    by (rule fields_size_included)
  have long: "populated_slots ?e = 17 \<and> charge_slot ?e 15 = Some (intValue gb)
      \<and> charge_slot ?e 16 = Some (intValue gg)"
    if "wlc_included wline_at wline_ac \<or> pca_included pca_line"
  proof -
    from that size have n: "snd ?m = 17" by simp
    from len show ?thesis
      by (simp add: n populated_charge charge_slot_values)
  qed
  have short: "populated_slots ?e = 10 \<and> charge_slot ?e 15 = None \<and> charge_slot ?e 16 = None"
    if "\<not> wlc_included wline_at wline_ac \<and> \<not> pca_included pca_line"
  proof -
    from that size have n: "snd ?m = 10" by simp
    show ?thesis
      by (simp add: n populated_charge charge_slot_unpopulated)
  qed
  from report long short show ?thesis by blast
qed

text \<open>
  C6 (amended), on the example lines: with the wireless and PCA lines the record has
  17 slots and its slots 15 and 16 are the \<open>162\<close> and \<open>167\<close> of the PDO line, not the
  \<open>6\<close> and \<open>13\<close> the wireless and PCA lines stored; with neither line the record has
  10 slots.
\<close>

theorem C6_gcharger_override_witness:
  "gcharger_pdo_line example_platform pdo_fs = Some pdo_line
   \<and> (\<exists>e. ReportChargeStats example_platform pdo_fs summary_line
              wlc_at_line wlc_cap_line pca_example_line = Some e
          \<and> populated_slots e = 17
          \<and> charge_slot e 15 = Some (intValue 162)
          \<and> charge_slot e 16 = Some (intValue 167))
   \<and> (\<exists>e. ReportChargeStats example_platform pdo_fs summary_line [] [] [] = Some e
          \<and> populated_slots e = 10
          \<and> charge_slot e 15 = None
          \<and> charge_slot e 16 = None)"
  using C6_gcharger_override [OF summary_line_scan pdo_fs_line pdo_line_values,
      of wlc_at_line wlc_cap_line pca_example_line]
    C6_gcharger_override [OF summary_line_scan pdo_fs_line pdo_line_values, of "[]" "[]" "[]"]
    example_lines_included pdo_fs_line
  by simp

subsection \<open>C7: The order of the summary formats\<close>

text \<open>
  C7. The summary line is tried against the CSI format (ten values), then the AACR
  format (eight), then the base format (seven), and a format is accepted only when
  the scan returns exactly its number of values: a return of 10 under
  \<open>CHG_STATS_FMT2\<close> resolves the line to CSI, with the ten values in slots 0 to 9
  and zero behind them; otherwise a return of 8 under \<open>CHG_STATS_FMT1\<close> resolves it
  to AACR; otherwise a return of 7 under \<open>CHG_STATS_FMT0\<close> resolves it to the base
  format; otherwise the line is refused. Every line of CSI shape has the AACR and the
  base shape as well, and it resolves to CSI, never to the base format.
\<close>

theorem C7_format_priority:
  "(fst (sscanf_ints (c_str line) CHG_STATS_FMT2) = 10 \<longrightarrow>
      scan_summary line
        = Some (CSI, snd (sscanf_ints (c_str line) CHG_STATS_FMT2) @ replicate 7 0)
      \<and> fst (sscanf_ints (c_str line) CHG_STATS_FMT1) = 8
      \<and> fst (sscanf_ints (c_str line) CHG_STATS_FMT0) = 7)
   \<and> (fst (sscanf_ints (c_str line) CHG_STATS_FMT2) \<noteq> 10
        \<and> fst (sscanf_ints (c_str line) CHG_STATS_FMT1) = 8 \<longrightarrow>
      (\<exists>tmp. scan_summary line = Some (AACR, tmp)
         \<and> take 8 tmp = snd (sscanf_ints (c_str line) CHG_STATS_FMT1)))
   \<and> (fst (sscanf_ints (c_str line) CHG_STATS_FMT2) \<noteq> 10
        \<and> fst (sscanf_ints (c_str line) CHG_STATS_FMT1) \<noteq> 8
        \<and> fst (sscanf_ints (c_str line) CHG_STATS_FMT0) = 7 \<longrightarrow>
      (\<exists>tmp. scan_summary line = Some (BASE, tmp)
         \<and> take 7 tmp = snd (sscanf_ints (c_str line) CHG_STATS_FMT0)))
   \<and> (fst (sscanf_ints (c_str line) CHG_STATS_FMT2) \<noteq> 10
        \<and> fst (sscanf_ints (c_str line) CHG_STATS_FMT1) \<noteq> 8
        \<and> fst (sscanf_ints (c_str line) CHG_STATS_FMT0) \<noteq> 7 \<longrightarrow>
      scan_summary line = None)"
proof (intro conjI impI)
  assume a: "fst (sscanf_ints (c_str line) CHG_STATS_FMT2) = 10"
  then have "length (snd (sscanf_ints (c_str line) CHG_STATS_FMT2)) = 10"
    using sscanf_ints_count [of "c_str line" CHG_STATS_FMT2 10] by simp
  with a show "scan_summary line
        = Some (CSI, snd (sscanf_ints (c_str line) CHG_STATS_FMT2) @ replicate 7 0)"
    by (simp add: scan_summary_def split_beta chg_fields_size_def length_10_store del: One_nat_def)
  from a show b: "fst (sscanf_ints (c_str line) CHG_STATS_FMT1) = 8"
    by (rule csi_has_aacr_shape)
  from b show "fst (sscanf_ints (c_str line) CHG_STATS_FMT0) = 7"
    by (rule aacr_has_base_shape)
next
  assume a: "fst (sscanf_ints (c_str line) CHG_STATS_FMT2) \<noteq> 10
        \<and> fst (sscanf_ints (c_str line) CHG_STATS_FMT1) = 8"
  then have "length (snd (sscanf_ints (c_str line) CHG_STATS_FMT1)) = 8"
    using sscanf_ints_count [of "c_str line" CHG_STATS_FMT1 8] by simp
  with a show "\<exists>tmp. scan_summary line = Some (AACR, tmp)
         \<and> take 8 tmp = snd (sscanf_ints (c_str line) CHG_STATS_FMT1)"
    by (simp add: scan_summary_def split_beta chg_fields_size_def take_store_8 length_store del: One_nat_def)
next
  assume a: "fst (sscanf_ints (c_str line) CHG_STATS_FMT2) \<noteq> 10
        \<and> fst (sscanf_ints (c_str line) CHG_STATS_FMT1) \<noteq> 8
        \<and> fst (sscanf_ints (c_str line) CHG_STATS_FMT0) = 7"
  then have "length (snd (sscanf_ints (c_str line) CHG_STATS_FMT0)) = 7"
    using sscanf_ints_count [of "c_str line" CHG_STATS_FMT0 7] by simp
  with a show "\<exists>tmp. scan_summary line = Some (BASE, tmp)
         \<and> take 7 tmp = snd (sscanf_ints (c_str line) CHG_STATS_FMT0)"
    by (simp add: scan_summary_def split_beta chg_fields_size_def take_store_7 length_store del: One_nat_def)
next
  assume "fst (sscanf_ints (c_str line) CHG_STATS_FMT2) \<noteq> 10
        \<and> fst (sscanf_ints (c_str line) CHG_STATS_FMT1) \<noteq> 8
        \<and> fst (sscanf_ints (c_str line) CHG_STATS_FMT0) \<noteq> 7"
  then show "scan_summary line = None"
    by (simp add: scan_summary_def split_beta)
qed

text \<open>
  C7, on the example: a line with ten values has the CSI and the base shape and
  resolves to CSI.
\<close>

theorem C7_format_priority_witness:
  "fst (sscanf_ints (c_str csi_line) CHG_STATS_FMT2) = 10
   \<and> fst (sscanf_ints (c_str csi_line) CHG_STATS_FMT0) = 7
   \<and> scan_summary csi_line
       = Some (CSI, [3, 9000, 2000, 80, 4400, 90, 4450, 4000, 1, 2, 0, 0, 0, 0, 0, 0, 0])"
  using C7_format_priority [of csi_line] by (simp add: csi_line_scan eval_nat_numeral)

subsection \<open>C8: The width of the atoms\<close>

text \<open>
  C8. Every atom a drain hands to the stats service has a fixed number of populated
  slots: a session record (ChargeStats) has exactly 10 or exactly 17, a voltage-tier
  sample (VoltageTierStats) has exactly 16 or exactly 20. The same holds for whatever
  \<open>ReportChargeStats\<close> and \<open>ReportVoltageTierStats\<close> report on their own.
\<close>

theorem C8_schema_width:
  "list_all schema_width_ok (snd (snd (checkAndReport P inp path st)))
   \<and> (case ReportChargeStats P w line wline_at wline_ac pca_line of
        None \<Rightarrow> True
      | Some e \<Rightarrow> \<not> is_tier e \<and> (populated_slots e = 10 \<or> populated_slots e = 17))
   \<and> (case snd (ReportVoltageTierStats P tline has_wireless wfile_contents wcs) of
        None \<Rightarrow> True
      | Some e \<Rightarrow> is_tier e \<and> (populated_slots e = 16 \<or> populated_slots e = 20))"
proof -
  obtain r0 w0 where st: "st = (r0, w0)" by (cases st)
  have tl: "\<And>hw wfc ls wcs. list_all schema_width_ok (snd (report_tier_lines P hw wfc ls wcs))"
    by (rule list_all_tier_width [OF report_tier_lines_width])
  have ts: "\<And>x. list_all schema_width_ok (snd (snd (report_tier_sources P x)))"
    by (rule list_all_tier_width [OF report_tier_sources_width])
  have rc: "\<And>w' l a b c. list_all schema_width_ok
              (case ReportChargeStats P w' l a b c of None \<Rightarrow> [] | Some e \<Rightarrow> [e])"
  proof -
    fix w' l a b c
    show "list_all schema_width_ok
              (case ReportChargeStats P w' l a b c of None \<Rightarrow> [] | Some e \<Rightarrow> [e])"
      using ReportChargeStats_width [of P w' l a b c]
      by (cases "ReportChargeStats P w' l a b c") (simp_all add: schema_width_ok_iff)
  qed
  have drain: "list_all schema_width_ok (snd (snd (checkAndReport P inp path st)))"
    unfolding st checkAndReport_def
    by (simp add: split_beta Let_def tl ts rc split: option.split)
  have session: "case ReportChargeStats P w line wline_at wline_ac pca_line of
        None \<Rightarrow> True
      | Some e \<Rightarrow> \<not> is_tier e \<and> (populated_slots e = 10 \<or> populated_slots e = 17)"
    using ReportChargeStats_width [of P w line wline_at wline_ac pca_line]
    by (simp split: option.split)
  have tier: "case snd (ReportVoltageTierStats P tline has_wireless wfile_contents wcs) of
        None \<Rightarrow> True
      | Some e \<Rightarrow> is_tier e \<and> (populated_slots e = 16 \<or> populated_slots e = 20)"
    using ReportVoltageTierStats_width [of P tline has_wireless wfile_contents wcs]
    by (simp split: option.split)
  show ?thesis
    by (intro conjI) (rule drain, rule session, rule tier)
qed

text \<open>
  C8, on the example with wireless contents: a session record of 17 slots, a tier
  sample of 20 and one of 16; the plain session record has 10.
\<close>

theorem C8_schema_width_witness:
  "snd (snd (checkAndReport example_platform (wireless_input 100) ''primary''
               (idle_reporter, example_fs summary_line [])))
     = [kChargeStats
          (charge_values [102, 9000, 2000, 80, 4400, 90, 4450, 0, 0, 0, 1, 2, 3, 4, 5, 6, 7] 17),
        example_tier_atom_wireless, example_tier_atom]
   \<and> list_all schema_width_ok
        [kChargeStats
           (charge_values [102, 9000, 2000, 80, 4400, 90, 4450, 0, 0, 0, 1, 2, 3, 4, 5, 6, 7] 17),
         example_tier_atom_wireless, example_tier_atom]
   \<and> map populated_slots
        [kChargeStats
           (charge_values [102, 9000, 2000, 80, 4400, 90, 4450, 0, 0, 0, 1, 2, 3, 4, 5, 6, 7] 17),
         example_tier_atom_wireless, example_tier_atom, example_session_atom]
       = [17, 20, 16, 10]"
proof -
  have acc: "fst (shouldReportEvent (getTimeSecs (wireless_input 100)) idle_reporter)"
    by (simp add: example_inputs idle_throttle)
  have f: "files (example_fs summary_line []) ''primary''
      = Some (text_of_lines [summary_line, tier_line])"
    by (simp add: example_fs_simps)
  have g: "getline (text_of_lines [summary_line, tier_line])
      = Some (summary_line, text_of_lines [tier_line])"
    by (simp add: getline_text example_lines_no_newline)
  have ev: "snd (snd (checkAndReport example_platform (wireless_input 100) ''primary''
               (idle_reporter, example_fs summary_line [])))
     = [kChargeStats
          (charge_values [102, 9000, 2000, 80, 4400, 90, 4450, 0, 0, 0, 1, 2, 3, 4, 5, 6, 7] 17),
        example_tier_atom_wireless, example_tier_atom]"
    by (simp add: checkAndReport_accepted [OF f g acc] drain_eval)
  have n: "map populated_slots
        [kChargeStats
           (charge_values [102, 9000, 2000, 80, 4400, 90, 4450, 0, 0, 0, 1, 2, 3, 4, 5, 6, 7] 17),
         example_tier_atom_wireless, example_tier_atom, example_session_atom
           :: (int \<times> nat) VendorAtom]
       = [17, 20, 16, 10]"
    by (simp add: populated_charge populated_tier example_tier_atom_def
          example_tier_atom_wireless_def example_session_atom_def)
  from C8_schema_width [of example_platform "wireless_input 100" "''primary''"
      "(idle_reporter, example_fs summary_line [])"] ev n
  show ?thesis by simp
qed

subsection \<open>C9: The clear comes before the throttle\<close>




subsection \<open>C10: A wireless line that does not parse\<close>

text \<open>
  C10 (the claim as stated fails on the code). The wireless contents are present and
  their first line is empty, so it does not parse as \<open>A:<int>\<close>; the PCA line then
  does set slot 0 to the PPS sentinel \<open>9\<close> and slots 10, 11 and 15 to its values.
\<close>

theorem C10_blank_first_line_counterexample:
  "fst (CheckWirelessContentsAndAck blank_first_input)
   \<and> wireless_lines_of blank_first_input = ([], wlc_cap_line)
   \<and> fst (sscanf_ints (c_str []) ''A:%d'') \<noteq> 1
   \<and> snd (snd (checkAndReport example_platform blank_first_input ''primary''
                  (idle_reporter, example_fs summary_line [])))
       = [kChargeStats
            (charge_values [9, 9000, 2000, 80, 4400, 90, 4450, 0, 0, 0, 10, 11, 14, 15, 16, 12, 13]
               17),
          example_tier_atom_wireless, example_tier_atom]"
proof -
  have acc: "fst (shouldReportEvent (getTimeSecs blank_first_input) idle_reporter)"
    by (simp add: example_inputs idle_throttle)
  have f: "files (example_fs summary_line []) ''primary''
      = Some (text_of_lines [summary_line, tier_line])"
    by (simp add: example_fs_simps)
  have g: "getline (text_of_lines [summary_line, tier_line])
      = Some (summary_line, text_of_lines [tier_line])"
    by (simp add: getline_text example_lines_no_newline)
  show ?thesis
    by (simp add: checkAndReport_accepted [OF f g acc] drain_eval pca_session_report
          c_str_Nil scan_A_empty initial_tier_stats_def)
qed

text \<open>
  C10 (amended). When the first wireless line is not empty and does not parse as
  \<open>A:<int>\<close>, the wireless block changes nothing, whatever the capability line is:
  slot 0 keeps the adapter type of the summary line and slots 10 to 16 stay as they
  were. A PCA line that parses then sets slots 12, 13, 14 and 16 and extends the record
  to 17 slots, but it does not set slot 0 to the PPS sentinel and does not set slots
  10, 11 and 15, which keep the zero they had (slot 15 up to the generic charger's PDO
  line); a PCA line that does not parse leaves the record at 10 slots.
\<close>

theorem C10_unparsed_wireless_blocks_pca:
  assumes s: "scan_summary line = Some (fmt, s)"
    and ne: "wline_at \<noteq> []"
    and un: "fst (sscanf_ints (c_str wline_at) ''A:%d'') \<noteq> 1"
  shows "merge_wireless P wline_at wline_ac (s, 10) = (s, 10)
    \<and> (sscanf_ints (c_str pca_line) ''D:%x,%x %x,%x,%x,%x,%x'' = (7, [aa, ab, pa, pb, pc, pd, pe])
       \<longrightarrow> charge_stats_slots P w line wline_at wline_ac pca_line
             = Some (merge_gcharger P w (s[12 := pc, 13 := pd, 14 := pe, 16 := pb]), 17))
    \<and> (fst (sscanf_ints (c_str pca_line) ''D:%x,%x %x,%x,%x,%x,%x'') \<noteq> 7
       \<longrightarrow> charge_stats_slots P w line wline_at wline_ac pca_line
             = Some (merge_gcharger P w s, 10))
    \<and> s ! 10 = 0 \<and> s ! 11 = 0 \<and> s ! 15 = 0"
proof -
  have mw: "merge_wireless P wline_at wline_ac (s, 10) = (s, 10)"
    by (rule merge_wireless_unparsed [OF un])
  have a: "sscanf_ints (c_str pca_line) ''D:%x,%x %x,%x,%x,%x,%x'' = (7, [aa, ab, pa, pb, pc, pd, pe])
       \<Longrightarrow> charge_stats_slots P w line wline_at wline_ac pca_line
             = Some (merge_gcharger P w (s[12 := pc, 13 := pd, 14 := pe, 16 := pb]), 17)"
    using ne by (simp add: charge_stats_slots_eq [OF s] mw merge_pca_parsed)
  have b: "fst (sscanf_ints (c_str pca_line) ''D:%x,%x %x,%x,%x,%x,%x'') \<noteq> 7
       \<Longrightarrow> charge_stats_slots P w line wline_at wline_ac pca_line
             = Some (merge_gcharger P w s, 10)"
    by (simp add: charge_stats_slots_eq [OF s] mw merge_pca_unparsed)
  from mw a b scan_summary_tail_nth [OF s] show ?thesis by blast
qed

text \<open>
  C10, on the example: the first wireless line is \<open>0\<close>, as a cleared source reads.
\<close>

theorem C10_unparsed_wireless_blocks_pca_witness:
  "fst (sscanf_ints (c_str ''0'') ''A:%d'') \<noteq> 1
   \<and> charge_stats_slots example_platform (example_fs summary_line []) summary_line
       ''0'' wlc_cap_line pca_example_line
     = Some ([3, 9000, 2000, 80, 4400, 90, 4450, 0, 0, 0, 0, 0, 14, 15, 16, 0, 13], 17)"
proof -
  have ne: "''0'' \<noteq> []" by simp
  have un: "fst (sscanf_ints (c_str ''0'') ''A:%d'') \<noteq> 1"
    by (simp add: cleared_at_scan)
  from C10_unparsed_wireless_blocks_pca [OF summary_line_scan ne un,
      where P = example_platform and w = "example_fs summary_line []"
        and wline_ac = wlc_cap_line and pca_line = pca_example_line
        and aa = 10 and ab = 11 and pa = 12 and pb = 13 and pc = 14 and pd = 15 and pe = 16]
    un
  show ?thesis
    by (simp add: pca_example_scan merge_gcharger_none example_fs_no_pdo)
qed

end
